theory Spec2Isabelle
  imports Complex_Main
begin

section \<open>The KML format of OpenLayers (src/ol/format/KML.js)\<close>

text \<open>
  A shallow embedding of the leaf readers and writers, the multi-geometry and
  track decoders, the style resolution, the placemark reader and the readers
  of features from a node of
  \<^verbatim>\<open>src/ol/format/KML.js\<close>.

  Conventions.
  \<^item> A JavaScript number is an exact rational (\<^typ>\<open>rat\<close>) or \<open>NaN\<close>; the
    rounding of IEEE doubles and the infinities are not modelled.
  \<^item> A JavaScript string is a \<^typ>\<open>string\<close>: a list of code units below 256.
  \<^item> \<open>undefined\<close> and \<open>null\<close> are \<open>None\<close> of an option type where the code tests
    for them.
  \<^item> A function that throws, or that recurses without end, returns \<open>None\<close>
    (or \<open>Inl\<close> of an error where the error is named).
\<close>

subsection \<open>JavaScript numbers and strings\<close>

datatype number = Num rat | NaN

text \<open>\<^verbatim>\<open>xs[i]\<close> read as a number: an index out of range gives \<open>undefined\<close>, which
  every arithmetic operation and \<^verbatim>\<open>parseInt\<close> turn into \<open>NaN\<close>.\<close>

definition js_nth :: "number list \<Rightarrow> nat \<Rightarrow> number" where
  "js_nth xs i = (if i < length xs then xs ! i else NaN)"

fun js_times :: "number \<Rightarrow> number \<Rightarrow> number" where
  "js_times (Num a) (Num b) = Num (a * b)"
| "js_times _ _ = NaN"

fun js_divide :: "number \<Rightarrow> rat \<Rightarrow> number" where
  "js_divide (Num a) b = Num (a / b)"
| "js_divide NaN b = NaN"

text \<open>\<^verbatim>\<open>s.substr(start, length)\<close> for non-negative arguments.\<close>

definition substr :: "string \<Rightarrow> nat \<Rightarrow> nat \<Rightarrow> string" where
  "substr s start len = take len (drop start s)"

text \<open>The character class \<^verbatim>\<open>\s\<close> of a JavaScript regular expression, on code
  units below 256: tab, line feed, vertical tab, form feed, carriage return,
  space and no-break space.\<close>

definition is_space :: "char \<Rightarrow> bool" where
  "is_space c = (c \<in> set [CHR 0x09, CHR 0x0A, CHR 0x0B, CHR 0x0C, CHR 0x0D, CHR '' '', CHR 0xA0])"

text \<open>\<^verbatim>\<open>\d\<close> and \<^verbatim>\<open>[0-9A-Fa-f]\<close>.\<close>

definition is_digit :: "char \<Rightarrow> bool" where
  "is_digit c = (c \<in> set ''0123456789'')"

definition is_hex :: "char \<Rightarrow> bool" where
  "is_hex c = (c \<in> set ''0123456789ABCDEFabcdef'')"

definition digit_value :: "char \<Rightarrow> nat" where
  "digit_value c =
     (if is_digit c then of_char c - 48
      else if c \<in> set ''abcdef'' then of_char c - 87
      else of_char c - 55)"

text \<open>\<^verbatim>\<open>parseInt(s, 16)\<close> on a string without sign, prefix or leading white space
  (the only strings \<open>readColor\<close> passes): the leading hexadecimal digits are
  read, and the result is \<open>NaN\<close> when there is none.\<close>

definition parseInt16 :: "string \<Rightarrow> number" where
  "parseInt16 s =
     (let ds = takeWhile is_hex s
      in if ds = [] then NaN
         else Num (of_nat (foldl (\<lambda>a c. 16 * a + digit_value c) 0 ds)))"

lemma floor_rat_numeral [simp]: "\<lfloor>numeral a / numeral b :: rat\<rfloor> = numeral a div numeral b"
  by (metis floor_divide_of_int_eq of_int_numeral)


subsection \<open>Regular expressions as backtracking matchers\<close>

text \<open>
  A regular expression of the source is written with the combinators below,
  one per construct, in the order of the pattern. A matcher takes the
  continuation that matches the rest of the pattern and the text still to be
  read; a greedy quantifier first tries to take one more character and falls
  back to the continuation when that fails, which is the backtracking order
  of JavaScript.
\<close>

type_synonym 'r cont = "string \<Rightarrow> 'r option"

text \<open>One character of a class.\<close>

fun one :: "(char \<Rightarrow> bool) \<Rightarrow> 'r cont \<Rightarrow> 'r cont" where
  "one p k [] = None"
| "one p k (c # cs) = (if p c then k cs else None)"

text \<open>\<^verbatim>\<open>p*\<close>, greedy.\<close>

fun star :: "(char \<Rightarrow> bool) \<Rightarrow> 'r cont \<Rightarrow> 'r cont" where
  "star p k [] = k []"
| "star p k (c # cs) =
     (if p c then (case star p k cs of Some r \<Rightarrow> Some r | None \<Rightarrow> k (c # cs))
      else k (c # cs))"

text \<open>\<^verbatim>\<open>p+\<close>, greedy.\<close>

definition plus1 :: "(char \<Rightarrow> bool) \<Rightarrow> 'r cont \<Rightarrow> 'r cont" where
  "plus1 p k = one p (star p k)"

text \<open>\<^verbatim>\<open>p?\<close>, greedy.\<close>

fun opt1 :: "(char \<Rightarrow> bool) \<Rightarrow> 'r cont \<Rightarrow> 'r cont" where
  "opt1 p k [] = k []"
| "opt1 p k (c # cs) =
     (if p c then (case k cs of Some r \<Rightarrow> Some r | None \<Rightarrow> k (c # cs))
      else k (c # cs))"

text \<open>\<^verbatim>\<open>(?:g)?\<close>, greedy, for a group \<open>g\<close>.\<close>

definition optg :: "('r cont \<Rightarrow> 'r cont) \<Rightarrow> 'r cont \<Rightarrow> 'r cont" where
  "optg g k s = (case g k s of Some r \<Rightarrow> Some r | None \<Rightarrow> k s)"

text \<open>\<^verbatim>\<open>p{n}\<close>.\<close>

fun rep :: "nat \<Rightarrow> (char \<Rightarrow> bool) \<Rightarrow> 'r cont \<Rightarrow> 'r cont" where
  "rep 0 p k = k"
| "rep (Suc n) p k = one p (rep n p k)"

text \<open>\<^verbatim>\<open>$\<close> (without the multi-line flag): the end of the text.\<close>

definition eos :: "'r cont \<Rightarrow> 'r cont" where
  "eos k s = (if s = [] then k s else None)"

text \<open>A capturing group \<^verbatim>\<open>(g)\<close>: the continuation receives the text that \<open>g\<close>
  has read.\<close>

definition capture :: "('r cont \<Rightarrow> 'r cont) \<Rightarrow> (string \<Rightarrow> 'r cont) \<Rightarrow> 'r cont" where
  "capture g k s = g (\<lambda>s'. k (take (length s - length s') s) s') s"


subsection \<open>Properties of the matchers\<close>

lemma star_SomeD:
  "star p k s = Some r \<Longrightarrow> \<exists>w t. s = w @ t \<and> list_all p w \<and> k t = Some r"
proof (induction s)
  case Nil
  then show ?case by simp
next
  case (Cons c cs)
  show ?case
  proof (cases "p c \<and> star p k cs = Some r")
    case True
    with Cons.IH obtain w t where "cs = w @ t" "list_all p w" "k t = Some r" by blast
    then have "c # cs = (c # w) @ t \<and> list_all p (c # w) \<and> k t = Some r" using True by simp
    then show ?thesis by blast
  next
    case False
    with Cons.prems have "k (c # cs) = Some r" by (auto split: if_splits option.splits)
    then have "c # cs = [] @ (c # cs) \<and> list_all p [] \<and> k (c # cs) = Some r" by simp
    then show ?thesis by blast
  qed
qed

lemma star_greedy:
  "list_all p w \<Longrightarrow> t = [] \<or> \<not> p (hd t) \<Longrightarrow> k t = Some r \<Longrightarrow> star p k (w @ t) = Some r"
proof (induction w)
  case Nil
  then show ?case by (cases t) auto
next
  case (Cons c w)
  then show ?case by simp
qed

lemma opt1_SomeD:
  "opt1 p k s = Some r \<Longrightarrow> (\<exists>c t. s = c # t \<and> p c \<and> k t = Some r) \<or> k s = Some r"
  by (cases s) (auto split: if_splits option.splits)

lemma one_SomeD:
  "one p k s = Some r \<Longrightarrow> \<exists>c t. s = c # t \<and> p c \<and> k t = Some r"
  by (cases s) (auto split: if_splits)

lemma rep_SomeD:
  "rep n p k s = Some r \<Longrightarrow> \<exists>w t. s = w @ t \<and> length w = n \<and> list_all p w \<and> k t = Some r"
proof (induction n arbitrary: s)
  case 0
  then show ?case by simp
next
  case (Suc n)
  from Suc.prems obtain c t where s: "s = c # t" "p c" "rep n p k t = Some r"
    using one_SomeD[of p "rep n p k" s r] by auto
  from Suc.IH[OF s(3)] obtain w u where "t = w @ u" "length w = n" "list_all p w" "k u = Some r"
    by blast
  then have "s = (c # w) @ u \<and> length (c # w) = Suc n \<and> list_all p (c # w) \<and> k u = Some r"
    using s by simp
  then show ?case by blast
qed

lemma rep_append:
  "length w = n \<Longrightarrow> list_all p w \<Longrightarrow> rep n p k (w @ t) = k t"
  by (induction n arbitrary: w) (auto simp: length_Suc_conv)





subsection \<open>readColor\<close>

text \<open>\<^verbatim>\<open>/^\s*#?\s*([0-9A-Fa-f]{8})\s*$/.exec(s)\<close>: the captured group \<open>m[1]\<close>.\<close>

definition readColor_re :: "string \<Rightarrow> string option" where
  "readColor_re =
     star is_space (opt1 (\<lambda>c. c = CHR ''#'') (star is_space
       (capture (rep 8 is_hex) (\<lambda>hexColor. star is_space (eos (\<lambda>_. Some hexColor))))))"

text \<open>\<open>readColor\<close>, on the text content of the node.\<close>

definition readColor :: "string \<Rightarrow> number list option" where
  "readColor s =
     (case readColor_re s of
        Some hexColor \<Rightarrow>
          Some [parseInt16 (substr hexColor 6 2),
                parseInt16 (substr hexColor 4 2),
                parseInt16 (substr hexColor 2 2),
                js_divide (parseInt16 (substr hexColor 0 2)) 255]
      | None \<Rightarrow> None)"

subsubsection \<open>What the specification says of readColor\<close>

text \<open>
  The texts the specification describes: eight hexadecimal digits \<open>h\<close>, with an
  optional \<^verbatim>\<open>#\<close> before them and optional white space around the digits and
  around the \<^verbatim>\<open>#\<close>.
\<close>

definition color_text :: "string \<Rightarrow> string \<Rightarrow> bool" where
  "color_text s h \<longleftrightarrow>
     (\<exists>a hash b c. s = a @ hash @ b @ h @ c \<and> (hash = [] \<or> hash = ''#'') \<and>
        list_all is_space a \<and> list_all is_space b \<and> list_all is_space c \<and>
        length h = 8 \<and> list_all is_hex h)"

text \<open>The byte that two hexadecimal digits denote.\<close>

definition hex_pair_value :: "char \<Rightarrow> char \<Rightarrow> rat" where
  "hex_pair_value c d = of_nat (16 * digit_value c + digit_value d)"

subsubsection \<open>Properties of readColor\<close>

lemma is_hex_not_space: "is_hex c \<Longrightarrow> \<not> is_space c"
  by (auto simp: is_hex_def is_space_def)

lemma is_hex_not_hash: "is_hex c \<Longrightarrow> c \<noteq> CHR ''#''"
  by (auto simp: is_hex_def)

lemma hash_not_space: "\<not> is_space CHR ''#''"
  by (simp add: is_space_def)

abbreviation readColor_tail :: "string \<Rightarrow> string option" where
  "readColor_tail \<equiv> star is_space
       (capture (rep 8 is_hex) (\<lambda>hexColor. star is_space (eos (\<lambda>_. Some hexColor))))"

lemma readColor_tail_sound:
  assumes "readColor_tail t = Some h"
  shows "\<exists>b c. t = b @ h @ c \<and> list_all is_space b \<and> list_all is_space c \<and>
           length h = 8 \<and> list_all is_hex h"
proof -
  let ?K4 = "\<lambda>hexColor. star is_space (eos (\<lambda>_. Some hexColor))"
  from star_SomeD[OF assms] obtain b t3 where t: "t = b @ t3" "list_all is_space b"
    and k3: "capture (rep 8 is_hex) ?K4 t3 = Some h" by blast
  from k3 have "rep 8 is_hex (\<lambda>s'. ?K4 (take (length t3 - length s') t3) s') t3 = Some h"
    by (simp only: capture_def)
  from rep_SomeD[OF this] obtain w t4 where t3: "t3 = w @ t4" "length w = 8" "list_all is_hex w"
    and k4: "?K4 (take (length t3 - length t4) t3) t4 = Some h" by blast
  from t3 have "take (length t3 - length t4) t3 = w" by simp
  with k4 have "star is_space (eos (\<lambda>_. Some w)) t4 = Some h" by simp
  from star_SomeD[OF this] obtain c t5 where t4: "t4 = c @ t5" "list_all is_space c"
    and e: "eos (\<lambda>_. Some w) t5 = Some h" by blast
  from e have "t5 = []" "w = h" by (auto simp: eos_def split: if_splits)
  with t t3 t4 have "t = b @ h @ c \<and> list_all is_space b \<and> list_all is_space c \<and>
           length h = 8 \<and> list_all is_hex h" by simp
  then show ?thesis by blast
qed

lemma readColor_re_sound:
  assumes "readColor_re s = Some h"
  shows "color_text s h"
proof -
  from assms have "star is_space (opt1 (\<lambda>c. c = CHR ''#'') readColor_tail) s = Some h"
    by (simp only: readColor_re_def)
  from star_SomeD[OF this] obtain a t1 where s: "s = a @ t1" "list_all is_space a"
    and o: "opt1 (\<lambda>c. c = CHR ''#'') readColor_tail t1 = Some h" by blast
  from opt1_SomeD[OF o] consider t2 where "t1 = CHR ''#'' # t2" "readColor_tail t2 = Some h"
    | "readColor_tail t1 = Some h"
    by blast
  then have "\<exists>hash t. t1 = hash @ t \<and> (hash = [] \<or> hash = ''#'') \<and> readColor_tail t = Some h"
  proof cases
    case 1
    then have "t1 = ''#'' @ t2 \<and> (''#'' = [] \<or> ''#'' = ''#'') \<and> readColor_tail t2 = Some h" by simp
    then show ?thesis by blast
  next
    case 2
    then have "t1 = [] @ t1 \<and> (([]::string) = [] \<or> [] = ''#'') \<and> readColor_tail t1 = Some h" by simp
    then show ?thesis by blast
  qed
  then obtain hash t where t1: "t1 = hash @ t" "hash = [] \<or> hash = ''#''"
    and k: "readColor_tail t = Some h" by blast
  from readColor_tail_sound[OF k] obtain b c where "t = b @ h @ c" "list_all is_space b"
    "list_all is_space c" "length h = 8" "list_all is_hex h" by blast
  with s t1 have "s = a @ hash @ b @ h @ c \<and> (hash = [] \<or> hash = ''#'') \<and>
        list_all is_space a \<and> list_all is_space b \<and> list_all is_space c \<and>
        length h = 8 \<and> list_all is_hex h" by simp
  then show ?thesis unfolding color_text_def by blast
qed

lemma capture_rep:
  assumes "length w = n" "list_all p w"
  shows "capture (rep n p) k (w @ t) = k w t"
proof -
  let ?k = "\<lambda>s'. k (take (length (w @ t) - length s') (w @ t)) s'"
  have "rep n p ?k (w @ t) = ?k t"
    using rep_append[OF assms, of ?k t] .
  then show ?thesis by (simp add: capture_def)
qed

lemma readColor_tail_complete:
  assumes "list_all is_space b" "list_all is_space c" "length h = 8" "list_all is_hex h"
  shows "readColor_tail (b @ h @ c) = Some h"
proof -
  let ?K4 = "\<lambda>hexColor. star is_space (eos (\<lambda>_. Some hexColor))"
  let ?K3 = "capture (rep 8 is_hex) ?K4"
  have "eos (\<lambda>_. Some h) [] = Some h" by (simp add: eos_def)
  then have "star is_space (eos (\<lambda>_. Some h)) (c @ []) = Some h"
    using star_greedy[OF assms(2), of "[]" "eos (\<lambda>_. Some h)" h] by simp
  then have k4: "?K4 h c = Some h" by simp
  have k3: "?K3 (h @ c) = Some h"
    using capture_rep[OF assms(3,4), of ?K4 c] k4 by simp
  from assms(3,4) have "h @ c = [] \<or> \<not> is_space (hd (h @ c))"
    by (cases h) (auto simp: is_hex_not_space)
  then show ?thesis using star_greedy[OF assms(1), of "h @ c" ?K3 h] k3 by simp
qed


lemma readColor_re_complete:
  assumes "color_text s h"
  shows "readColor_re s = Some h"
proof -
  let ?O = "opt1 (\<lambda>c. c = CHR ''#'') readColor_tail"
  from assms obtain a hash b c where s: "s = a @ hash @ b @ h @ c" "hash = [] \<or> hash = ''#''"
    "list_all is_space a" "list_all is_space b" "list_all is_space c"
    "length h = 8" "list_all is_hex h" unfolding color_text_def by blast
  from s(2) show ?thesis
  proof
    assume hash: "hash = ''#''"
    have tl: "readColor_tail (b @ h @ c) = Some h"
      using s(4,5,6,7) by (rule readColor_tail_complete)
    then have "?O (CHR ''#'' # b @ h @ c) = Some h" by simp
    then have "star is_space ?O (a @ CHR ''#'' # b @ h @ c) = Some h"
      using star_greedy[OF s(3), of "CHR ''#'' # b @ h @ c" ?O h] by (simp add: hash_not_space)
    then show ?thesis using s(1) hash by (simp add: readColor_re_def)
  next
    assume hash: "hash = []"
    from s(6,7) obtain x xs where h: "h = x # xs" "is_hex x" by (cases h) auto
    have "readColor_tail ([] @ h @ c) = Some h"
      by (rule readColor_tail_complete) (use s in simp_all)
    then have "?O (h @ c) = Some h"
      using h is_hex_not_hash[OF h(2)] by simp
    moreover have "h @ c = [] \<or> \<not> is_space (hd (h @ c))"
      using h by (simp add: is_hex_not_space)
    moreover have "list_all is_space (a @ b)" using s by simp
    ultimately have "star is_space ?O ((a @ b) @ h @ c) = Some h"
      using star_greedy[of is_space "a @ b" "h @ c" ?O h] by blast
    then show ?thesis using s(1) hash by (simp add: readColor_re_def)
  qed
qed

lemma parseInt16_pair:
  "is_hex c \<Longrightarrow> is_hex d \<Longrightarrow> parseInt16 [c, d] = Num (hex_pair_value c d)"
  by (simp add: parseInt16_def hex_pair_value_def)

lemma list8:
  assumes "length h = 8"
  obtains a0 a1 b0 b1 g0 g1 r0 r1 where "h = [a0, a1, b0, b1, g0, g1, r0, r1]"
  using assms by (auto simp: eval_nat_numeral length_Suc_conv)

lemma readColor_value:
  assumes "readColor_re s = Some h" "length h = 8" "list_all is_hex h"
  shows "readColor s = Some [Num (hex_pair_value (h ! 6) (h ! 7)),
                          Num (hex_pair_value (h ! 4) (h ! 5)),
                          Num (hex_pair_value (h ! 2) (h ! 3)),
                          Num (hex_pair_value (h ! 0) (h ! 1) / 255)]"
proof -
  from assms(2) obtain a0 a1 b0 b1 g0 g1 r0 r1 where h: "h = [a0, a1, b0, b1, g0, g1, r0, r1]"
    by (rule list8)
  have hx: "is_hex a0" "is_hex a1" "is_hex b0" "is_hex b1" "is_hex g0" "is_hex g1" "is_hex r0" "is_hex r1"
    using assms(3) unfolding h by simp_all
  have sub: "substr h 6 2 = [r0, r1]" "substr h 4 2 = [g0, g1]" "substr h 2 2 = [b0, b1]"
    "substr h 0 2 = [a0, a1]"
    unfolding h substr_def by simp_all
  have nth: "h ! 6 = r0" "h ! 7 = r1" "h ! 4 = g0" "h ! 5 = g1" "h ! 2 = b0" "h ! 3 = b1"
    "h ! 0 = a0" "h ! 1 = a1"
    unfolding h by simp_all
  have nth1: "h ! Suc 0 = a1" unfolding h by simp
  show ?thesis
    by (simp add: readColor_def assms(1) sub nth nth1 parseInt16_pair hx)
qed

text \<open>
  Claim C5. \<open>readColor\<close> returns a color exactly when the text is eight
  hexadecimal digits with an optional leading \<^verbatim>\<open>#\<close> and optional surrounding
  white space; the digits are read in the byte order alpha, blue, green, red and
  the color is \<open>[red, green, blue, alpha / 255]\<close>. Any other text gives
  \<open>None\<close> (\<open>undefined\<close>); no input raises an error, \<open>readColor\<close> being total.
\<close>

theorem readColor_spec:
  "(readColor s \<noteq> None) = (\<exists>h. color_text s h) \<and>
   (color_text s h \<longrightarrow>
      readColor s = Some [Num (hex_pair_value (h ! 6) (h ! 7)),
                          Num (hex_pair_value (h ! 4) (h ! 5)),
                          Num (hex_pair_value (h ! 2) (h ! 3)),
                          Num (hex_pair_value (h ! 0) (h ! 1) / 255)])"
proof (intro conjI impI)
  show "(readColor s \<noteq> None) = (\<exists>h. color_text s h)"
  proof
    assume "readColor s \<noteq> None"
    then obtain x where "readColor_re s = Some x"
      by (cases "readColor_re s") (simp_all add: readColor_def)
    then have "color_text s x" by (rule readColor_re_sound)
    then show "\<exists>h. color_text s h" ..
  next
    assume "\<exists>h. color_text s h"
    then obtain x where "color_text s x" ..
    then have "readColor_re s = Some x" by (rule readColor_re_complete)
    then show "readColor s \<noteq> None" by (simp add: readColor_def)
  qed
next
  assume ct: "color_text s h"
  then have re: "readColor_re s = Some h" by (rule readColor_re_complete)
  from ct have "length h = 8" "list_all is_hex h" by (auto simp: color_text_def)
  with re show "readColor s = Some [Num (hex_pair_value (h ! 6) (h ! 7)),
                          Num (hex_pair_value (h ! 4) (h ! 5)),
                          Num (hex_pair_value (h ! 2) (h ! 3)),
                          Num (hex_pair_value (h ! 0) (h ! 1) / 255)]"
    by (rule readColor_value)
qed

theorem readColor_spec_witness:
  "color_text ''  #ff0080Fe '' ''ff0080Fe'' \<and>
   readColor ''  #ff0080Fe '' = Some [Num 254, Num 128, Num 0, Num 1] \<and>
   (\<forall>h. \<not> color_text ''not-a-color'' h) \<and> readColor ''not-a-color'' = None"
proof -
  have ct: "color_text ''  #ff0080Fe '' ''ff0080Fe''"
    unfolding color_text_def
    by (intro exI[of _ "''  ''"] exI[of _ "''#''"] exI[of _ "[]"] exI[of _ "'' ''"])
       (simp add: is_space_def is_hex_def)
  have none: "readColor ''not-a-color'' = None"
    by code_simp
  from readColor_spec[of "''  #ff0080Fe ''" "''ff0080Fe''"] ct
  have "readColor ''  #ff0080Fe '' = Some [Num 254, Num 128, Num 0, Num 1]"
    by (simp add: hex_pair_value_def digit_value_def is_digit_def)
  moreover from readColor_spec[of "''not-a-color''"] none have "\<forall>h. \<not> color_text ''not-a-color'' h"
    by simp
  ultimately show ?thesis using ct none by blast
qed

subsection \<open>writeColorTextNode\<close>

text \<open>
  \<^verbatim>\<open>parseInt(x, 10)\<close> of a number \<open>x\<close> first converts \<open>x\<close> to a string. A number
  whose magnitude is at least \<open>10\<^sup>-\<^sup>6\<close> and below \<open>10\<^sup>2\<^sup>1\<close> is written in decimal
  notation and \<^verbatim>\<open>parseInt\<close> reads its integer part; any other number except zero is
  written in exponent notation (\<^verbatim>\<open>7.65e-7\<close>), of which \<^verbatim>\<open>parseInt\<close> reads the digit
  before the point. \<open>leading_digit\<close> is that digit, for a positive number.
\<close>

function leading_digit :: "rat \<Rightarrow> int" where
  "leading_digit x =
     (if x \<le> 0 then 0
      else if x < 1 then leading_digit (10 * x)
      else if x < 10 then \<lfloor>x\<rfloor>
      else leading_digit (x / 10))"
  by pat_completeness auto

lemma leading_digit_small_step:
  fixes x :: rat
  assumes "0 < x" "x < 1"
  shows "nat \<lceil>1 / (10 * x)\<rceil> < nat \<lceil>1 / x\<rceil>"
proof -
  define y where "y = 1 / x"
  have y1: "1 < y" using assms by (simp add: y_def)
  have e: "1 / (10 * x) = y / 10" by (simp add: y_def)
  have c2: "2 \<le> \<lceil>y\<rceil>" using y1 by (simp add: le_ceiling_iff)
  then have "(2::rat) \<le> of_int \<lceil>y\<rceil>" by (metis of_int_le_iff of_int_numeral)
  moreover have "y \<le> of_int \<lceil>y\<rceil>" by simp
  ultimately have "y / 10 \<le> of_int \<lceil>y\<rceil> - 1" by linarith
  then have "y / 10 \<le> of_int (\<lceil>y\<rceil> - 1)" by simp
  then have "\<lceil>y / 10\<rceil> \<le> \<lceil>y\<rceil> - 1" by (simp only: ceiling_le)
  then show ?thesis using c2 unfolding e y_def[symmetric] by linarith
qed

lemma leading_digit_big_step:
  fixes x :: rat
  assumes "10 \<le> x"
  shows "nat \<lfloor>x / 10\<rfloor> < nat \<lfloor>x\<rfloor>"
proof -
  have "of_int \<lfloor>x / 10\<rfloor> \<le> x / 10" by (rule of_int_floor_le)
  moreover have "x - 1 < of_int \<lfloor>x\<rfloor>" by linarith
  ultimately have "(of_int \<lfloor>x / 10\<rfloor> :: rat) < of_int \<lfloor>x\<rfloor>" using assms by linarith
  then have "\<lfloor>x / 10\<rfloor> < \<lfloor>x\<rfloor>" by (simp only: of_int_less_iff)
  moreover have "0 < \<lfloor>x\<rfloor>" using assms by simp
  ultimately show ?thesis by linarith
qed

termination leading_digit
proof (relation "measure (\<lambda>x. if x < 1 then 1 + nat \<lceil>1 / x\<rceil>
                              else if x < 10 then 0 else nat \<lfloor>x\<rfloor>)", goal_cases)
  case 1
  show ?case by simp
next
  case (2 x)
  then have x: "0 < x" "x < 1" by simp_all
  then have "10 * x < 10" by simp
  then show ?case using leading_digit_small_step[OF x] x by simp
next
  case (3 x)
  then have x: "10 \<le> x" by simp
  then have "\<not> x / 10 < 1" "0 < \<lfloor>x\<rfloor>" by simp_all
  then show ?case using leading_digit_big_step[OF x] x by simp
qed

text \<open>\<^verbatim>\<open>parseInt(x, 10)\<close> of a number: an integer, or \<open>None\<close> for \<open>NaN\<close>.\<close>

definition parseInt10 :: "number \<Rightarrow> int option" where
  "parseInt10 v =
     (case v of
        NaN \<Rightarrow> None
      | Num x \<Rightarrow>
          if x = 0 then Some 0
          else let d = (if 1 / 10 ^ 6 \<le> \<bar>x\<bar> \<and> \<bar>x\<bar> < 10 ^ 21 then \<lfloor>\<bar>x\<bar>\<rfloor>
                        else leading_digit \<bar>x\<bar>)
               in Some (if x < 0 then - d else d))"

text \<open>\<^verbatim>\<open>n.toString(16)\<close> of an integer or of \<open>NaN\<close>.\<close>

definition hex_char :: "nat \<Rightarrow> char" where
  "hex_char d = ''0123456789abcdef'' ! d"

fun hex_digits :: "nat \<Rightarrow> string" where
  "hex_digits n = (if n < 16 then [hex_char n] else hex_digits (n div 16) @ [hex_char (n mod 16)])"

definition toString16 :: "int option \<Rightarrow> string" where
  "toString16 v =
     (case v of
        None \<Rightarrow> ''NaN''
      | Some n \<Rightarrow> if n < 0 then CHR ''-'' # hex_digits (nat (- n)) else hex_digits (nat n))"

text \<open>
  \<open>writeColorTextNode\<close>: the text that is written to the node. The argument
  is the array \<open>rgba\<close> that \<^verbatim>\<open>asArray(color)\<close> returns, which for a color given
  as an array is the color itself (\<^verbatim>\<open>ol/color.js\<close> is not part of these sources).
\<close>

definition writeColorTextNode :: "number list \<Rightarrow> string" where
  "writeColorTextNode rgba =
     (let opacity = (if length rgba = 4 then js_nth rgba 3 else Num 1);
          abgr = [js_times opacity (Num 255), js_nth rgba 2, js_nth rgba 1, js_nth rgba 0]
      in concat (map (\<lambda>v. let hex = toString16 (parseInt10 v)
                          in if length hex = 1 then CHR ''0'' # hex else hex) abgr))"

subsubsection \<open>What the specification says of writeColorTextNode\<close>

text \<open>Exactly two lower-case hexadecimal digits, padded with a zero on the left.\<close>

definition hex2 :: "nat \<Rightarrow> string" where
  "hex2 n = [hex_char (n div 16), hex_char (n mod 16)]"



text \<open>The components that the writer's \<^verbatim>\<open>parseInt\<close> reads in decimal notation
  and that fit in two digits: zero, or at least \<open>10\<^sup>-\<^sup>6\<close>, and below 256.\<close>

definition writable :: "rat \<Rightarrow> bool" where
  "writable v \<longleftrightarrow> (v = 0 \<or> 1 / 10 ^ 6 \<le> v) \<and> v < 256"

subsubsection \<open>Properties of writeColorTextNode\<close>

lemma hex_char_cases:
  assumes "d < 16"
  shows "is_hex (hex_char d) \<and> digit_value (hex_char d) = d \<and> hex_char d \<in> set ''0123456789abcdef''"
proof -
  have "[0..<16] = [0, 1, 2, 3, 4, 5, 6, 7, 8, 9, 10, 11, 12, 13, 14, 15 :: nat]"
    by code_simp
  moreover from assms have "d \<in> set [0..<16]" by simp
  ultimately have "d \<in> set [0, 1, 2, 3, 4, 5, 6, 7, 8, 9, 10, 11, 12, 13, 14, 15 :: nat]"
    by simp
  then have "d \<in> {0, 1, 2, 3, 4, 5, 6, 7, 8, 9, 10, 11, 12, 13, 14, 15}"
    by simp
  then show ?thesis
    by (elim insertE emptyE) (simp_all add: hex_char_def is_hex_def digit_value_def is_digit_def)
qed

lemma parseInt10_trunc:
  assumes "writable v"
  shows "parseInt10 (Num v) = Some \<lfloor>v\<rfloor>"
proof (cases "v = 0")
  case True
  then show ?thesis by (simp add: parseInt10_def)
next
  case False
  with assms have v: "1 / 10 ^ 6 \<le> v" "v < 256" by (simp_all add: writable_def)
  then have "0 < v" by (smt (verit) divide_pos_pos zero_less_numeral zero_less_one zero_less_power less_le_trans)
  moreover have "\<bar>v\<bar> < 10 ^ 21" using v \<open>0 < v\<close> by simp
  ultimately show ?thesis using v False by (simp add: parseInt10_def Let_def)
qed

lemma floor_writable:
  assumes "writable v"
  shows "0 \<le> \<lfloor>v\<rfloor>" "nat \<lfloor>v\<rfloor> < 256"
proof -
  from assms have v: "0 \<le> v" "v < 256" 
    by (auto simp: writable_def intro: order_trans[of 0 "1 / 10 ^ 6" v])
  then show "0 \<le> \<lfloor>v\<rfloor>" by simp
  from v have "\<lfloor>v\<rfloor> < 256" by (simp add: floor_less_iff)
  with \<open>0 \<le> \<lfloor>v\<rfloor>\<close> show "nat \<lfloor>v\<rfloor> < 256" by linarith
qed

lemma pad_hex_digits:
  assumes "n < 256"
  shows "(let hex = hex_digits n in if length hex = 1 then CHR ''0'' # hex else hex) = hex2 n"
proof (cases "n < 16")
  case True
  then show ?thesis by (simp add: hex2_def hex_char_def)
next
  case False
  with assms have "n div 16 < 16" by simp
  then have "hex_digits (n div 16) = [hex_char (n div 16)]" by simp
  with False show ?thesis by (subst hex_digits.simps) (simp add: hex2_def del: hex_digits.simps)
qed

lemma write_component:
  assumes "writable v"
  shows "(let hex = toString16 (parseInt10 (Num v)) in if length hex = 1 then CHR ''0'' # hex else hex)
          = hex2 (nat \<lfloor>v\<rfloor>)"
  using pad_hex_digits[OF floor_writable(2)[OF assms]] floor_writable(1)[OF assms]
  by (simp add: parseInt10_trunc[OF assms] toString16_def del: hex_digits.simps)

lemma hex2_is_hex: "n < 256 \<Longrightarrow> list_all is_hex (hex2 n)"
  by (simp add: hex2_def hex_char_cases)

lemma hex2_value:
  "n < 256 \<Longrightarrow> hex_pair_value (hex2 n ! 0) (hex2 n ! Suc 0) = of_nat n"
  by (simp add: hex2_def hex_pair_value_def hex_char_cases)

lemma color_roundtrip:
  assumes "writable (a * 255)" "writable b" "writable g" "writable r"
  shows "readColor (writeColorTextNode [Num r, Num g, Num b, Num a])
           = Some [Num (of_int \<lfloor>r\<rfloor>), Num (of_int \<lfloor>g\<rfloor>), Num (of_int \<lfloor>b\<rfloor>),
                   Num (of_int \<lfloor>a * 255\<rfloor> / 255)]"
proof -
  let ?h = "hex2 (nat \<lfloor>a * 255\<rfloor>) @ hex2 (nat \<lfloor>b\<rfloor>) @ hex2 (nat \<lfloor>g\<rfloor>) @ hex2 (nat \<lfloor>r\<rfloor>)"
  note w = assms
  have out: "writeColorTextNode [Num r, Num g, Num b, Num a] = ?h"
    using w by (simp add: writeColorTextNode_def js_nth_def write_component
        del: hex_digits.simps One_nat_def)
  have hx: "list_all is_hex ?h"
    using w by (simp add: hex2_is_hex floor_writable)
  have len: "length ?h = 8" by (simp add: hex2_def)
  have ct: "color_text ?h ?h"
    unfolding color_text_def
    by (intro exI[of _ "[]"]) (use hx len in simp)
  have nth: "?h ! 6 = hex2 (nat \<lfloor>r\<rfloor>) ! 0" "?h ! 7 = hex2 (nat \<lfloor>r\<rfloor>) ! 1"
    "?h ! 4 = hex2 (nat \<lfloor>g\<rfloor>) ! 0" "?h ! 5 = hex2 (nat \<lfloor>g\<rfloor>) ! 1"
    "?h ! 2 = hex2 (nat \<lfloor>b\<rfloor>) ! 0" "?h ! 3 = hex2 (nat \<lfloor>b\<rfloor>) ! 1"
    "?h ! 0 = hex2 (nat \<lfloor>a * 255\<rfloor>) ! 0" "?h ! 1 = hex2 (nat \<lfloor>a * 255\<rfloor>) ! 1"
    by (simp_all add: hex2_def)
  have val: "rat_of_nat (nat \<lfloor>v\<rfloor>) = of_int \<lfloor>v\<rfloor>" if "writable v" for v
    using floor_writable(1)[OF that] by simp
  from readColor_value[OF readColor_re_complete[OF ct] len hx]
  have "readColor ?h = Some [Num (hex_pair_value (?h ! 6) (?h ! 7)),
                          Num (hex_pair_value (?h ! 4) (?h ! 5)),
                          Num (hex_pair_value (?h ! 2) (?h ! 3)),
                          Num (hex_pair_value (?h ! 0) (?h ! 1) / 255)]" .
  then show ?thesis
    unfolding out nth using w by (simp add: hex2_value floor_writable val)
qed

lemma alpha_within:
  fixes a :: rat
  shows "\<bar>a - of_int \<lfloor>a * 255\<rfloor> / 255\<bar> < 1 / 255"
proof -
  have "of_int \<lfloor>a * 255\<rfloor> \<le> a * 255" "a * 255 < of_int \<lfloor>a * 255\<rfloor> + 1" by linarith+
  then show ?thesis by (simp add: field_simps abs_less_iff)
qed




text \<open>
  Claim C3 fails on the code for a very small alpha: \<open>3 \<sqdot> 10\<^sup>-\<^sup>9 * 255\<close> is
  \<open>7.65 \<sqdot> 10\<^sup>-\<^sup>7\<close>, which JavaScript writes as \<^verbatim>\<open>7.65e-7\<close>; \<^verbatim>\<open>parseInt\<close> reads
  \<open>7\<close>, the alpha byte is \<^verbatim>\<open>07\<close>, and reading the text back gives the alpha
  \<open>7 / 255\<close>, further than \<open>1 / 255\<close> from the alpha that was written.
  (\<open>color_roundtrip\<close> and \<open>alpha_within\<close> above are the law where every
  component is written in decimal notation.)
\<close>

theorem color_roundtrip_tiny_alpha:
  "readColor (writeColorTextNode [Num 0, Num 0, Num 0, Num (3 / 10 ^ 9)])
     = Some [Num 0, Num 0, Num 0, Num (7 / 255)] \<and>
   \<not> \<bar>7 / 255 - 3 / 10 ^ 9 :: rat\<bar> \<le> 1 / 255"
proof
  show "readColor (writeColorTextNode [Num 0, Num 0, Num 0, Num (3 / 10 ^ 9)])
     = Some [Num 0, Num 0, Num 0, Num (7 / 255)]"
    by code_simp
  show "\<not> \<bar>7 / 255 - 3 / 10 ^ 9 :: rat\<bar> \<le> 1 / 255"
    by simp
qed

subsection \<open>readFlatCoordinates\<close>

text \<open>The character classes \<^verbatim>\<open>[+\-]\<close>, \<^verbatim>\<open>e\<close> (with the flag \<^verbatim>\<open>i\<close>), \<^verbatim>\<open>\.\<close> and \<^verbatim>\<open>,\<close>.\<close>

definition is_sign :: "char \<Rightarrow> bool" where
  "is_sign c = (c = CHR ''+'' \<or> c = CHR ''-'')"

definition is_e :: "char \<Rightarrow> bool" where
  "is_e c = (c = CHR ''e'' \<or> c = CHR ''E'')"

definition is_dot :: "char \<Rightarrow> bool" where
  "is_dot c = (c = CHR ''.'')"




text \<open>
  \<^verbatim>\<open>parseFloat(s)\<close>: the longest prefix of \<open>s\<close>, after leading white space, that
  is a decimal literal (sign, digits, fraction, exponent), as an exact
  rational; \<open>NaN\<close> when there is no digit. The literal \<^verbatim>\<open>Infinity\<close> is not
  modelled: no text that the patterns of this file capture holds it.
\<close>

definition decimal_value :: "string \<Rightarrow> nat" where
  "decimal_value ds = foldl (\<lambda>a c. 10 * a + digit_value c) 0 ds"

definition parseFloat :: "string \<Rightarrow> number" where
  "parseFloat s =
     (let s1 = dropWhile is_space s;
          negative = (s1 \<noteq> [] \<and> hd s1 = CHR ''-'');
          s2 = (if s1 \<noteq> [] \<and> is_sign (hd s1) then tl s1 else s1);
          ip = takeWhile is_digit s2;
          s3 = dropWhile is_digit s2;
          dot = (s3 \<noteq> [] \<and> is_dot (hd s3));
          fp = (if dot then takeWhile is_digit (tl s3) else []);
          s4 = (if dot then dropWhile is_digit (tl s3) else s3);
          s5 = (if s4 \<noteq> [] \<and> is_e (hd s4) then tl s4 else []);
          eneg = (s5 \<noteq> [] \<and> hd s5 = CHR ''-'');
          ed = takeWhile is_digit (if s5 \<noteq> [] \<and> is_sign (hd s5) then tl s5 else s5);
          mantissa = of_nat (decimal_value ip) + of_nat (decimal_value fp) / 10 ^ length fp;
          scaled = (if eneg then mantissa / 10 ^ decimal_value ed
                    else mantissa * 10 ^ decimal_value ed)
      in if ip = [] \<and> fp = [] then NaN
         else Num (if negative then - scaled else scaled))"






subsubsection \<open>Properties of readFlatCoordinates\<close>





subsection \<open>Geometries and readMultiGeometry\<close>

text \<open>
  Modelled from the spec: the geometry classes (\<^verbatim>\<open>ol/geom\<close>) are not part of
  the sources. A geometry is one of the tagged variants of the specification,
  with its layout, its flat coordinates (of any type \<open>'c\<close>: this file never
  looks into them), the ring ends of a polygon and its properties. A
  \<open>MultiLineString\<close> or \<open>MultiPolygon\<close> made by \<^verbatim>\<open>setLineStrings\<close> or
  \<^verbatim>\<open>setPolygons\<close> holds the list of its members.

  The only properties that this file sets on a geometry are \<^verbatim>\<open>extrude\<close>,
  \<^verbatim>\<open>tessellate\<close> and \<^verbatim>\<open>altitudeMode\<close>: booleans and a string on a geometry that
  was read from an element, arrays (with \<open>undefined\<close> entries) on a
  multi-geometry.
\<close>

datatype layout = XY | XYZ | XYM | XYZM

datatype geometry_type = POINT | LINE_STRING | LINEAR_RING | POLYGON | MULTI_POINT
  | MULTI_LINE_STRING | MULTI_POLYGON | GEOMETRY_COLLECTION | CIRCLE

datatype property = PBoolean bool | PString string | PArray "property option list"

record geometry_properties =
  extrude :: "property option"
  tessellate :: "property option"
  altitudeMode :: "property option"

definition no_properties :: geometry_properties where
  "no_properties = \<lparr>extrude = None, tessellate = None, altitudeMode = None\<rparr>"

datatype 'c geometry =
    Point layout "'c list" geometry_properties
  | LineString layout "'c list" geometry_properties
  | Polygon layout "'c list" "nat list" geometry_properties
  | MultiPoint layout "'c list" geometry_properties
  | MultiLineString "'c geometry list" geometry_properties
  | MultiPolygon "'c geometry list" geometry_properties
  | GeometryCollection "'c geometry list"

fun getType :: "'c geometry \<Rightarrow> geometry_type" where
  "getType (Point l cs p) = POINT"
| "getType (LineString l cs p) = LINE_STRING"
| "getType (Polygon l cs es p) = POLYGON"
| "getType (MultiPoint l cs p) = MULTI_POINT"
| "getType (MultiLineString gs p) = MULTI_LINE_STRING"
| "getType (MultiPolygon gs p) = MULTI_POLYGON"
| "getType (GeometryCollection gs) = GEOMETRY_COLLECTION"

text \<open>\<open>geometry.get(key)\<close> is \<open>key (getProperties geometry)\<close>; nothing sets a
  property on a collection.\<close>

fun getProperties :: "'c geometry \<Rightarrow> geometry_properties" where
  "getProperties (Point l cs p) = p"
| "getProperties (LineString l cs p) = p"
| "getProperties (Polygon l cs es p) = p"
| "getProperties (MultiPoint l cs p) = p"
| "getProperties (MultiLineString gs p) = p"
| "getProperties (MultiPolygon gs p) = p"
| "getProperties (GeometryCollection gs) = no_properties"

text \<open>\<open>readMultiGeometry\<close> calls \<^verbatim>\<open>getLayout\<close> and \<^verbatim>\<open>getFlatCoordinates\<close> on
  points only.\<close>

fun getLayout :: "'c geometry \<Rightarrow> layout" where
  "getLayout (Point l cs p) = l"
| "getLayout (LineString l cs p) = l"
| "getLayout (Polygon l cs es p) = l"
| "getLayout (MultiPoint l cs p) = l"
| "getLayout (MultiLineString gs p) = (case gs of [] \<Rightarrow> XY | g # _ \<Rightarrow> getLayout g)"
| "getLayout (MultiPolygon gs p) = (case gs of [] \<Rightarrow> XY | g # _ \<Rightarrow> getLayout g)"
| "getLayout (GeometryCollection gs) = XY"

fun getFlatCoordinates :: "'c geometry \<Rightarrow> 'c list" where
  "getFlatCoordinates (Point l cs p) = cs"
| "getFlatCoordinates (LineString l cs p) = cs"
| "getFlatCoordinates (Polygon l cs es p) = cs"
| "getFlatCoordinates (MultiPoint l cs p) = cs"
| "getFlatCoordinates (MultiLineString gs p) = concat (map getFlatCoordinates gs)"
| "getFlatCoordinates (MultiPolygon gs p) = concat (map getFlatCoordinates gs)"
| "getFlatCoordinates (GeometryCollection gs) = []"

text \<open>The truth value of a property in a condition.\<close>

fun truthy :: "property option \<Rightarrow> bool" where
  "truthy None = False"
| "truthy (Some (PBoolean b)) = b"
| "truthy (Some (PString s)) = (s \<noteq> [])"
| "truthy (Some (PArray xs)) = True"

text \<open>
  \<open>setCommonGeometryProperties\<close>. The loop computes \<open>hasExtrude\<close>,
  \<open>hasTessellate\<close> (is a value other than \<open>undefined\<close>) and \<open>hasAltitudeMode\<close>
  (is a value true in a condition); the function returns the properties that
  are set on the new multi-geometry.
\<close>

fun common_flags :: "'c geometry list \<Rightarrow> bool \<times> bool \<times> bool \<Rightarrow> bool \<times> bool \<times> bool" where
  "common_flags [] flags = flags"
| "common_flags (geometry # geometries) (hasExtrude, hasTessellate, hasAltitudeMode) =
     common_flags geometries
       (hasExtrude \<or> extrude (getProperties geometry) \<noteq> None,
        hasTessellate \<or> tessellate (getProperties geometry) \<noteq> None,
        hasAltitudeMode \<or> truthy (altitudeMode (getProperties geometry)))"

definition setCommonGeometryProperties :: "'c geometry list \<Rightarrow> geometry_properties" where
  "setCommonGeometryProperties geometries =
     (let extrudes = map (\<lambda>g. extrude (getProperties g)) geometries;
          tessellates = map (\<lambda>g. tessellate (getProperties g)) geometries;
          altitudeModes = map (\<lambda>g. altitudeMode (getProperties g)) geometries;
          (hasExtrude, hasTessellate, hasAltitudeMode) = common_flags geometries (False, False, False)
      in \<lparr>extrude = (if hasExtrude then Some (PArray extrudes) else None),
          tessellate = (if hasTessellate then Some (PArray tessellates) else None),
          altitudeMode = (if hasAltitudeMode then Some (PArray altitudeModes) else None)\<rparr>)"

text \<open>
  \<open>readMultiGeometry\<close>, on the list \<open>geometries\<close> of the children that were
  read. \<^verbatim>\<open>assert(false, 37)\<close> throws.
\<close>

datatype js_error = AssertionError nat

definition readMultiGeometry :: "'c geometry list \<Rightarrow> js_error + 'c geometry" where
  "readMultiGeometry geometries =
     (if geometries = [] then Inr (GeometryCollection geometries)
      else
        let type = getType (hd geometries);
            homogeneous = list_all (\<lambda>geometry. getType geometry = type) (tl geometries)
        in if homogeneous then
             if type = POINT then
               let point = hd geometries;
                   layout = getLayout point;
                   flatCoordinates = fold (\<lambda>geometry fc. fc @ getFlatCoordinates geometry)
                                       (tl geometries) (getFlatCoordinates point)
               in Inr (MultiPoint layout flatCoordinates (setCommonGeometryProperties geometries))
             else if type = LINE_STRING then
               Inr (MultiLineString geometries (setCommonGeometryProperties geometries))
             else if type = POLYGON then
               Inr (MultiPolygon geometries (setCommonGeometryProperties geometries))
             else if type = GEOMETRY_COLLECTION then
               Inr (GeometryCollection geometries)
             else Inl (AssertionError 37)
           else Inr (GeometryCollection geometries))"

subsubsection \<open>Properties of readMultiGeometry\<close>

lemma common_flags_eq:
  "common_flags gs (e, t, a) =
     (e \<or> (\<exists>g \<in> set gs. extrude (getProperties g) \<noteq> None),
      t \<or> (\<exists>g \<in> set gs. tessellate (getProperties g) \<noteq> None),
      a \<or> (\<exists>g \<in> set gs. truthy (altitudeMode (getProperties g))))"
  by (induction gs arbitrary: e t a) auto

lemma fold_extend: "fold (\<lambda>g fc. fc @ f g) gs acc = acc @ concat (map f gs)"
  by (induction gs arbitrary: acc) simp_all

lemma homogeneous_iff:
  "gs \<noteq> [] \<Longrightarrow> list_all (\<lambda>g. getType g = getType (hd gs)) (tl gs)
     \<longleftrightarrow> \<not> (\<exists>g \<in> set gs. \<exists>h \<in> set gs. getType g \<noteq> getType h)"
  by (cases gs) (auto simp: list_all_iff)

text \<open>
  Claim C1, as stated, fails for \<^verbatim>\<open>altitudeMode\<close>: a member whose
  \<^verbatim>\<open>altitudeMode\<close> is the empty string (an empty element) has a defined value,
  and no array is attached.
\<close>

theorem readMultiGeometry_altitudeMode_counterexample:
  "altitudeMode (getProperties
     (Point XYZ [Num 1, Num 2, Num 3] (no_properties\<lparr>altitudeMode := Some (PString [])\<rparr>)))
     \<noteq> None \<and>
   readMultiGeometry
     [Point XYZ [Num 1, Num 2, Num 3] (no_properties\<lparr>altitudeMode := Some (PString [])\<rparr>),
      Point XYZ [Num 4, Num 5, Num 6] no_properties]
     = Inr (MultiPoint XYZ [Num 1, Num 2, Num 3, Num 4, Num 5, Num 6] no_properties)"
  by (simp add: readMultiGeometry_def setCommonGeometryProperties_def no_properties_def)

text \<open>
  Claim C1, amended. An empty list of children gives an empty
  \<open>GeometryCollection\<close>. Children that are all points give one \<open>MultiPoint\<close>
  with the layout of the first and the children's flat coordinates
  concatenated in order; children that are all line strings, or all polygons,
  give a \<open>MultiLineString\<close>, or a \<open>MultiPolygon\<close>, of the children. Children
  whose types are not all equal give a \<open>GeometryCollection\<close> of the children in
  order. The multi-geometry of points, line strings or polygons has the array
  of the members' \<^verbatim>\<open>extrude\<close> (\<^verbatim>\<open>tessellate\<close>) exactly when a member has a
  defined \<^verbatim>\<open>extrude\<close> (\<^verbatim>\<open>tessellate\<close>), and the array of the members'
  \<^verbatim>\<open>altitudeMode\<close> exactly when a member has an \<^verbatim>\<open>altitudeMode\<close> that is true in
  a condition (a non-empty string).
\<close>

theorem readMultiGeometry_homogenize:
  "readMultiGeometry [] = Inr (GeometryCollection []) \<and>
   (gs \<noteq> [] \<and> (\<forall>g \<in> set gs. getType g = POINT) \<longrightarrow>
      readMultiGeometry gs =
        Inr (MultiPoint (getLayout (hd gs)) (concat (map getFlatCoordinates gs))
               (setCommonGeometryProperties gs))) \<and>
   (gs \<noteq> [] \<and> (\<forall>g \<in> set gs. getType g = LINE_STRING) \<longrightarrow>
      readMultiGeometry gs = Inr (MultiLineString gs (setCommonGeometryProperties gs))) \<and>
   (gs \<noteq> [] \<and> (\<forall>g \<in> set gs. getType g = POLYGON) \<longrightarrow>
      readMultiGeometry gs = Inr (MultiPolygon gs (setCommonGeometryProperties gs))) \<and>
   ((\<exists>g \<in> set gs. \<exists>h \<in> set gs. getType g \<noteq> getType h) \<longrightarrow>
      readMultiGeometry gs = Inr (GeometryCollection gs)) \<and>
   extrude (setCommonGeometryProperties gs) =
     (if \<exists>g \<in> set gs. extrude (getProperties g) \<noteq> None
      then Some (PArray (map (\<lambda>g. extrude (getProperties g)) gs)) else None) \<and>
   tessellate (setCommonGeometryProperties gs) =
     (if \<exists>g \<in> set gs. tessellate (getProperties g) \<noteq> None
      then Some (PArray (map (\<lambda>g. tessellate (getProperties g)) gs)) else None) \<and>
   altitudeMode (setCommonGeometryProperties gs) =
     (if \<exists>g \<in> set gs. truthy (altitudeMode (getProperties g))
      then Some (PArray (map (\<lambda>g. altitudeMode (getProperties g)) gs)) else None)"
proof (intro conjI impI)
  show "readMultiGeometry [] = Inr (GeometryCollection [])"
    by (simp add: readMultiGeometry_def)
next
  assume a: "gs \<noteq> [] \<and> (\<forall>g \<in> set gs. getType g = POINT)"
  then obtain g gs' where gs: "gs = g # gs'" by (cases gs) auto
  with a have "getType g = POINT" "list_all (\<lambda>x. getType x = POINT) gs'"
    by (auto simp: list_all_iff)
  then show "readMultiGeometry gs =
        Inr (MultiPoint (getLayout (hd gs)) (concat (map getFlatCoordinates gs))
               (setCommonGeometryProperties gs))"
    by (simp add: readMultiGeometry_def gs fold_extend)
next
  assume a: "gs \<noteq> [] \<and> (\<forall>g \<in> set gs. getType g = LINE_STRING)"
  then obtain g gs' where gs: "gs = g # gs'" by (cases gs) auto
  with a have "getType g = LINE_STRING" "list_all (\<lambda>x. getType x = LINE_STRING) gs'"
    by (auto simp: list_all_iff)
  then show "readMultiGeometry gs = Inr (MultiLineString gs (setCommonGeometryProperties gs))"
    by (simp add: readMultiGeometry_def gs)
next
  assume a: "gs \<noteq> [] \<and> (\<forall>g \<in> set gs. getType g = POLYGON)"
  then obtain g gs' where gs: "gs = g # gs'" by (cases gs) auto
  with a have "getType g = POLYGON" "list_all (\<lambda>x. getType x = POLYGON) gs'"
    by (auto simp: list_all_iff)
  then show "readMultiGeometry gs = Inr (MultiPolygon gs (setCommonGeometryProperties gs))"
    by (simp add: readMultiGeometry_def gs)
next
  assume a: "\<exists>g \<in> set gs. \<exists>h \<in> set gs. getType g \<noteq> getType h"
  then have ne: "gs \<noteq> []" by auto
  from homogeneous_iff[OF ne] a
  have "\<not> list_all (\<lambda>g. getType g = getType (hd gs)) (tl gs)" by blast
  with ne show "readMultiGeometry gs = Inr (GeometryCollection gs)"
    by (simp add: readMultiGeometry_def)
next
  show "extrude (setCommonGeometryProperties gs) =
     (if \<exists>g \<in> set gs. extrude (getProperties g) \<noteq> None
      then Some (PArray (map (\<lambda>g. extrude (getProperties g)) gs)) else None)"
    by (simp add: setCommonGeometryProperties_def common_flags_eq)
  show "tessellate (setCommonGeometryProperties gs) =
     (if \<exists>g \<in> set gs. tessellate (getProperties g) \<noteq> None
      then Some (PArray (map (\<lambda>g. tessellate (getProperties g)) gs)) else None)"
    by (simp add: setCommonGeometryProperties_def common_flags_eq)
  show "altitudeMode (setCommonGeometryProperties gs) =
     (if \<exists>g \<in> set gs. truthy (altitudeMode (getProperties g))
      then Some (PArray (map (\<lambda>g. altitudeMode (getProperties g)) gs)) else None)"
    by (simp add: setCommonGeometryProperties_def common_flags_eq)
qed

theorem readMultiGeometry_homogenize_witness:
  "readMultiGeometry
     [Point XYZ [Num 1, Num 2, Num 3] (no_properties\<lparr>extrude := Some (PBoolean False)\<rparr>),
      Point XYZ [Num 4, Num 5, Num 6] no_properties,
      Point XYZ [Num 7, Num 8, Num 9] no_properties]
     = Inr (MultiPoint XYZ [Num 1, Num 2, Num 3, Num 4, Num 5, Num 6, Num 7, Num 8, Num 9]
              (no_properties\<lparr>extrude := Some (PArray [Some (PBoolean False), None, None])\<rparr>)) \<and>
   readMultiGeometry
     [Point XYZ [Num 1, Num 2, Num 3] no_properties,
      LineString XYZ [Num 4, Num 5, Num 6, Num 7, Num 8, Num 9] no_properties]
     = Inr (GeometryCollection
         [Point XYZ [Num 1, Num 2, Num 3] no_properties,
          LineString XYZ [Num 4, Num 5, Num 6, Num 7, Num 8, Num 9] no_properties])"
proof -
  let ?ps = "[Point XYZ [Num 1, Num 2, Num 3] (no_properties\<lparr>extrude := Some (PBoolean False)\<rparr>),
      Point XYZ [Num 4, Num 5, Num 6] no_properties,
      Point XYZ [Num 7, Num 8, Num 9] no_properties]"
  let ?mixed = "[Point XYZ [Num 1, Num 2, Num 3] no_properties,
      LineString XYZ [Num 4, Num 5, Num 6, Num 7, Num 8, Num 9] no_properties]"
  have p: "?ps \<noteq> [] \<and> (\<forall>g \<in> set ?ps. getType g = POINT)"
    by simp
  have m: "\<exists>g \<in> set ?mixed. \<exists>h \<in> set ?mixed. getType g \<noteq> getType h"
    by (intro bexI[of _ "Point XYZ [Num 1, Num 2, Num 3] no_properties"]
          bexI[of _ "LineString XYZ [Num 4, Num 5, Num 6, Num 7, Num 8, Num 9] no_properties"])
       simp_all
  from readMultiGeometry_homogenize[of ?ps] p
  have "readMultiGeometry ?ps =
        Inr (MultiPoint (getLayout (hd ?ps)) (concat (map getFlatCoordinates ?ps))
               (setCommonGeometryProperties ?ps))"
    by blast
  moreover from readMultiGeometry_homogenize[of ?mixed] m
  have "readMultiGeometry ?mixed = Inr (GeometryCollection ?mixed)"
    by blast
  ultimately show ?thesis
    by (simp add: setCommonGeometryProperties_def no_properties_def)
qed

subsection \<open>readGxTrack\<close>

text \<open>\<^verbatim>\<open>[+\-]?\d+(?:\.\d*)?(?:e[+\-]?\d*)?\<close>, one number of a \<^verbatim>\<open>gx:coord\<close>.\<close>

definition gx_number :: "'r cont \<Rightarrow> 'r cont" where
  "gx_number k =
     opt1 is_sign (plus1 is_digit
       (optg (\<lambda>k'. one is_dot (star is_digit k'))
         (optg (\<lambda>k'. one is_e (opt1 is_sign (star is_digit k'))) k)))"

text \<open>The pattern of \<open>gxCoordParser\<close>, \<^verbatim>\<open>^\s*(N)\s+(N)\s+(N)\s*$\<close>:
  \<open>(m[1], m[2], m[3])\<close>.\<close>

definition gx_coord_re :: "string \<Rightarrow> (string \<times> string \<times> string) option" where
  "gx_coord_re =
     star is_space (capture gx_number (\<lambda>m1.
       plus1 is_space (capture gx_number (\<lambda>m2.
         plus1 is_space (capture gx_number (\<lambda>m3.
           star is_space (eos (\<lambda>_. Some (m1, m2, m3)))))))))"

text \<open>The object that the two parsers fill. An entry of \<open>flatCoordinates\<close> is
  \<open>None\<close> where the array has a hole.\<close>

record GxTrackObject =
  flatCoordinates :: "number option list"
  whens :: "number list"

definition gxCoordParser :: "string \<Rightarrow> GxTrackObject \<Rightarrow> GxTrackObject" where
  "gxCoordParser s gxTrackObject =
     (case gx_coord_re s of
        Some (m1, m2, m3) \<Rightarrow>
          gxTrackObject\<lparr>flatCoordinates := flatCoordinates gxTrackObject @
            [Some (parseFloat m1), Some (parseFloat m2), Some (parseFloat m3), Some (Num 0)]\<rparr>
      | None \<Rightarrow>
          gxTrackObject\<lparr>flatCoordinates := flatCoordinates gxTrackObject @
            [Some (Num 0), Some (Num 0), Some (Num 0), Some (Num 0)]\<rparr>)"

text \<open>\<open>whenParser\<close>. \<^verbatim>\<open>Date.parse\<close> is a parameter: its result for a text that is
  not a date is \<open>NaN\<close>.\<close>

definition whenParser :: "(string \<Rightarrow> number) \<Rightarrow> string \<Rightarrow> GxTrackObject \<Rightarrow> GxTrackObject" where
  "whenParser date_parse s gxTrackObject =
     (let when = date_parse s
      in gxTrackObject\<lparr>whens := whens gxTrackObject @ [case when of NaN \<Rightarrow> Num 0 | Num t \<Rightarrow> Num t]\<rparr>)"

text \<open>
  Modelled from the spec: the tree walker (\<^verbatim>\<open>ol/xml.js\<close>) is not part of the
  sources. It calls the parser of each child element that the table
  \<open>GX_TRACK_PARSERS\<close> names, in document order: \<open>whenParser\<close> on a \<^verbatim>\<open>when\<close> and
  \<open>gxCoordParser\<close> on a \<^verbatim>\<open>gx:coord\<close>, each with the text of the element.
\<close>

datatype track_child = When string | Coord string

text \<open>\<^verbatim>\<open>xs[i] = v\<close>: an index beyond the end extends the array, and the
  entries between are holes.\<close>

definition js_set :: "'a option list \<Rightarrow> nat \<Rightarrow> 'a \<Rightarrow> 'a option list" where
  "js_set xs i v =
     (if i < length xs then xs[i := Some v]
      else xs @ replicate (i - length xs) None @ [Some v])"

text \<open>\<open>readGxTrack\<close>: the children are parsed, then the loop writes
  \<open>whens[i]\<close> to \<open>flatCoordinates[4 * i + 3]\<close> for \<open>i\<close> below
  \<open>min(flatCoordinates.length, whens.length)\<close>.\<close>

definition readGxTrack :: "(string \<Rightarrow> number) \<Rightarrow> track_child list \<Rightarrow> (number option) geometry" where
  "readGxTrack date_parse children =
     (let gxTrackObject =
            fold (\<lambda>child obj. case child of When s \<Rightarrow> whenParser date_parse s obj
                                            | Coord s \<Rightarrow> gxCoordParser s obj)
              children \<lparr>flatCoordinates = [], whens = []\<rparr>;
          ii = min (length (flatCoordinates gxTrackObject)) (length (whens gxTrackObject));
          flatCoordinates' =
            fold (\<lambda>i fc. js_set fc (4 * i + 3) (whens gxTrackObject ! i)) [0..<ii]
              (flatCoordinates gxTrackObject)
      in LineString XYZM flatCoordinates' no_properties)"

subsubsection \<open>What the specification says of readGxTrack\<close>

text \<open>The coordinate entries and the timestamps of a track, in arrival order,
  and the vertices \<open>[x, y, z, time]\<close> of entries zipped by index (\<^const>\<open>zip\<close> drops
  what the longer list has more).\<close>

definition coord_triple :: "string \<Rightarrow> number list" where
  "coord_triple s =
     (case gx_coord_re s of
        Some (m1, m2, m3) \<Rightarrow> [parseFloat m1, parseFloat m2, parseFloat m3]
      | None \<Rightarrow> [Num 0, Num 0, Num 0])"

definition timestamp :: "(string \<Rightarrow> number) \<Rightarrow> string \<Rightarrow> number" where
  "timestamp date_parse s = (case date_parse s of NaN \<Rightarrow> Num 0 | Num t \<Rightarrow> Num t)"

fun track_coords :: "track_child list \<Rightarrow> number list list" where
  "track_coords [] = []"
| "track_coords (Coord s # children) = coord_triple s # track_coords children"
| "track_coords (When s # children) = track_coords children"

fun track_whens :: "(string \<Rightarrow> number) \<Rightarrow> track_child list \<Rightarrow> number list" where
  "track_whens date_parse [] = []"
| "track_whens date_parse (When s # children) = timestamp date_parse s # track_whens date_parse children"
| "track_whens date_parse (Coord s # children) = track_whens date_parse children"

definition vertices :: "number list list \<Rightarrow> number list \<Rightarrow> number option list" where
  "vertices cs ws = concat (map (\<lambda>(c, w). map Some (c @ [w])) (zip cs ws))"

text \<open>The track that the specification describes: the two sequences zipped,
  the shorter one giving the length.\<close>

definition readGxTrack_claimed :: "(string \<Rightarrow> number) \<Rightarrow> track_child list \<Rightarrow> (number option) geometry" where
  "readGxTrack_claimed date_parse children =
     LineString XYZM (vertices (track_coords children) (track_whens date_parse children)) no_properties"

subsubsection \<open>Properties of readGxTrack\<close>

lemma length_coord_triple: "length (coord_triple s) = 3"
  by (simp add: coord_triple_def split: option.splits)

lemma track_coords_length: "\<forall>c \<in> set (track_coords children). length c = 3"
  by (induction children rule: track_coords.induct) (simp_all add: length_coord_triple)

lemma parse_children:
  "fold (\<lambda>child obj. case child of When s \<Rightarrow> whenParser date_parse s obj
                                    | Coord s \<Rightarrow> gxCoordParser s obj)
     children \<lparr>flatCoordinates = fc, whens = ws\<rparr>
   = \<lparr>flatCoordinates = fc @ vertices (track_coords children)
                              (replicate (length (track_coords children)) (Num 0)),
      whens = ws @ track_whens date_parse children\<rparr>"
proof (induction children arbitrary: fc ws rule: track_coords.induct)
  case 1
  then show ?case by (simp add: vertices_def)
next
  case (2 s children)
  have "gxCoordParser s \<lparr>flatCoordinates = fc, whens = ws\<rparr>
        = \<lparr>flatCoordinates = fc @ map Some (coord_triple s @ [Num 0]), whens = ws\<rparr>"
    by (simp add: gxCoordParser_def coord_triple_def split: option.splits)
  then show ?case using 2 by (simp add: vertices_def)
next
  case (3 s children)
  have "whenParser date_parse s \<lparr>flatCoordinates = fc, whens = ws\<rparr>
        = \<lparr>flatCoordinates = fc, whens = ws @ [timestamp date_parse s]\<rparr>"
    by (simp add: whenParser_def timestamp_def)
  then show ?case using 3 by simp
qed

lemma concat_blocks_nth:
  assumes "\<forall>b \<in> set xs. length b = k" "j < k * length xs"
  shows "concat xs ! j = (xs ! (j div k)) ! (j mod k)"
  using assms
proof (induction xs arbitrary: j)
  case Nil
  then show ?case by simp
next
  case (Cons x xs)
  then have lx: "length x = k" by simp
  show ?case
  proof (cases "j < k")
    case True
    then show ?thesis using lx by (simp add: nth_append)
  next
    case False
    then have "0 < k" "k \<le> j" using Cons.prems by auto
    have "j - k < k * length xs" using Cons.prems(2) False by (simp add: algebra_simps)
    with Cons have ih: "concat xs ! (j - k) = (xs ! ((j - k) div k)) ! ((j - k) mod k)" by simp
    have d: "j div k = Suc ((j - k) div k)" using \<open>k \<le> j\<close> \<open>0 < k\<close> by (simp add: le_div_geq)
    have m: "j mod k = (j - k) mod k" using \<open>k \<le> j\<close> by (simp add: le_mod_geq)
    show ?thesis using False lx ih by (simp add: nth_append d m)
  qed
qed

lemma length_vertices:
  assumes "\<forall>c \<in> set cs. length c = 3" "length ws = length cs"
  shows "length (vertices cs ws) = 4 * length cs"
  using assms
proof (induction cs arbitrary: ws)
  case Nil
  then show ?case by (simp add: vertices_def)
next
  case (Cons c cs)
  then obtain w ws' where "ws = w # ws'" by (cases ws) auto
  with Cons show ?case by (simp add: vertices_def)
qed

lemma vertices_nth:
  assumes "\<forall>c \<in> set cs. length c = 3" "length ws = length cs" "j < 4 * length cs"
  shows "vertices cs ws ! j
         = (if j mod 4 = 3 then Some (ws ! (j div 4)) else Some (cs ! (j div 4) ! (j mod 4)))"
proof -
  let ?bs = "map (\<lambda>(c, w). map Some (c @ [w])) (zip cs ws)"
  have len: "\<forall>b \<in> set ?bs. length b = 4"
    using assms(1) by (auto dest: set_zip_leftD)
  have l: "length ?bs = length cs" using assms(2) by simp
  have d: "j div 4 < length cs" using assms(3) by simp
  have "vertices cs ws ! j = (?bs ! (j div 4)) ! (j mod 4)"
    unfolding vertices_def using concat_blocks_nth[OF len, of j] assms(3) l by simp
  also have "?bs ! (j div 4) = map Some (cs ! (j div 4) @ [ws ! (j div 4)])"
    using d assms(2) by simp
  also have "\<dots> ! (j mod 4) = (if j mod 4 = 3 then Some (ws ! (j div 4))
                               else Some (cs ! (j div 4) ! (j mod 4)))"
  proof -
    have "length (cs ! (j div 4)) = 3" using assms(1) d by simp
    moreover have "j mod 4 < 4" by simp
    ultimately show ?thesis by (auto simp: nth_append)
  qed
  finally show ?thesis .
qed

lemma time_loop:
  assumes "\<forall>c \<in> set cs. length c = 3" "n \<le> length cs" "n \<le> length ws"
  shows "fold (\<lambda>i fc. js_set fc (4 * i + 3) (ws ! i)) [0..<n]
           (vertices cs (replicate (length cs) z))
         = vertices cs (take n ws @ replicate (length cs - n) z)"
  using assms(2,3)
proof (induction n)
  case 0
  then show ?case by simp
next
  case (Suc n)
  let ?old = "vertices cs (take n ws @ replicate (length cs - n) z)"
  let ?new = "vertices cs (take (Suc n) ws @ replicate (length cs - Suc n) z)"
  from Suc have n: "n < length cs" "n < length ws" by simp_all
  have lo: "length ?old = 4 * length cs"
    using n by (intro length_vertices[OF assms(1)]) simp
  have ln: "length ?new = 4 * length cs"
    using n by (intro length_vertices[OF assms(1)]) simp
  have "fold (\<lambda>i fc. js_set fc (4 * i + 3) (ws ! i)) [0..<Suc n]
           (vertices cs (replicate (length cs) z))
        = js_set ?old (4 * n + 3) (ws ! n)"
    using Suc by simp
  also have "\<dots> = ?old[4 * n + 3 := Some (ws ! n)]"
    using lo n by (simp add: js_set_def)
  also have "\<dots> = ?new"
  proof (rule nth_equalityI)
    show "length (?old[4 * n + 3 := Some (ws ! n)]) = length ?new" using lo ln by simp
  next
    fix j assume "j < length (?old[4 * n + 3 := Some (ws ! n)])"
    then have j: "j < 4 * length cs" using lo by simp
    then have d: "j div 4 < length cs" by simp
    have o: "?old ! j = (if j mod 4 = 3 then Some ((take n ws @ replicate (length cs - n) z) ! (j div 4))
                         else Some (cs ! (j div 4) ! (j mod 4)))"
      using n by (intro vertices_nth[OF assms(1) _ j]) simp
    have nw: "?new ! j = (if j mod 4 = 3 then Some ((take (Suc n) ws @ replicate (length cs - Suc n) z) ! (j div 4))
                         else Some (cs ! (j div 4) ! (j mod 4)))"
      using n by (intro vertices_nth[OF assms(1) _ j]) simp
    show "?old[4 * n + 3 := Some (ws ! n)] ! j = ?new ! j"
    proof (cases "j = 4 * n + 3")
      case True
      then have "j mod 4 = 3" "j div 4 = n" by simp_all
      then show ?thesis using True lo j n nw by (simp add: nth_append)
    next
      case False
      then have neq: "\<not> (j mod 4 = 3 \<and> j div 4 = n)"
        by (metis add.commute mult.commute div_mult_mod_eq)
      have "(take n ws @ replicate (length cs - n) z) ! (j div 4)
            = (take (Suc n) ws @ replicate (length cs - Suc n) z) ! (j div 4)" if "j mod 4 = 3"
      proof -
        from that neq have "j div 4 \<noteq> n" by simp
        then show ?thesis using n d
          by (auto simp: nth_append min_def take_Suc_conv_app_nth)
      qed
      then show ?thesis using False o nw by simp
    qed
  qed
  finally show ?case .
qed

text \<open>
  Claim C7, as stated, fails: entries of the longer sequence are not dropped.
  A track with two coordinate entries and one timestamp gives a line string
  of two vertices, the second with the time 0.
\<close>

theorem readGxTrack_shorter_whens_counterexample:
  "readGxTrack (\<lambda>_. Num 5) [Coord ''1 2 3'', Coord ''4 5 6'', When ''t'']
     = LineString XYZM
         (map Some [Num 1, Num 2, Num 3, Num 5, Num 4, Num 5, Num 6, Num 0]) no_properties \<and>
   readGxTrack_claimed (\<lambda>_. Num 5) [Coord ''1 2 3'', Coord ''4 5 6'', When ''t'']
     = LineString XYZM (map Some [Num 1, Num 2, Num 3, Num 5]) no_properties"
  by code_simp

text \<open>
  With more timestamps than coordinate entries the loop writes beyond the end
  of the array (it compares the number of timestamps with the length of the
  flat array, four per entry): one entry and two timestamps give a second
  vertex without coordinates.
\<close>

lemma readGxTrack_more_whens:
  "readGxTrack (\<lambda>_. Num 5) [Coord ''1 2 3'', When ''t'', When ''u'']
     = LineString XYZM
         [Some (Num 1), Some (Num 2), Some (Num 3), Some (Num 5), None, None, None, Some (Num 5)]
         no_properties"
  by code_simp

text \<open>
  Claim C7, amended. For a track with no more timestamps than coordinate
  entries, the result is a single line string with layout XYZM that has one
  vertex for each coordinate entry, in arrival order; the 4th component of
  vertex \<open>i\<close> is the \<open>i\<close>-th timestamp in milliseconds (0 when its text is not a
  date) while there are timestamps, and 0 for the vertices after them.
\<close>

theorem readGxTrack_zip:
  assumes "length (track_whens date_parse children) \<le> length (track_coords children)"
  shows "readGxTrack date_parse children =
           LineString XYZM
             (vertices (track_coords children)
                (track_whens date_parse children @
                 replicate (length (track_coords children) - length (track_whens date_parse children))
                   (Num 0)))
             no_properties"
proof -
  let ?cs = "track_coords children" and ?ws = "track_whens date_parse children"
  have l3: "\<forall>c \<in> set ?cs. length c = 3" by (rule track_coords_length)
  have len: "length (vertices ?cs (replicate (length ?cs) (Num 0))) = 4 * length ?cs"
    by (rule length_vertices[OF l3]) simp
  have ii: "min (4 * length ?cs) (length ?ws) = length ?ws" using assms by simp
  show ?thesis
    unfolding readGxTrack_def parse_children Let_def
    using time_loop[OF l3 assms order_refl, of "Num 0"] 
    by (simp add: len ii)
qed

theorem readGxTrack_zip_witness:
  "length (track_whens (\<lambda>s. if s = ''1970-01-01T00:00:01Z'' then Num 1000 else NaN)
             [When ''1970-01-01T00:00:01Z'', Coord ''1 2 3'', When ''soon'', Coord ''4 5 6'',
              Coord ''7,8,9''])
     \<le> length (track_coords
             [When ''1970-01-01T00:00:01Z'', Coord ''1 2 3'', When ''soon'', Coord ''4 5 6'',
              Coord ''7,8,9'']) \<and>
   readGxTrack (\<lambda>s. if s = ''1970-01-01T00:00:01Z'' then Num 1000 else NaN)
     [When ''1970-01-01T00:00:01Z'', Coord ''1 2 3'', When ''soon'', Coord ''4 5 6'',
      Coord ''7,8,9'']
     = LineString XYZM
         (map Some [Num 1, Num 2, Num 3, Num 1000, Num 4, Num 5, Num 6, Num 0,
                    Num 0, Num 0, Num 0, Num 0])
         no_properties"
proof -
  let ?dp = "\<lambda>s. if s = ''1970-01-01T00:00:01Z'' then Num 1000 else NaN"
  let ?ch = "[When ''1970-01-01T00:00:01Z'', Coord ''1 2 3'', When ''soon'', Coord ''4 5 6'',
              Coord ''7,8,9'']"
  have h: "length (track_whens ?dp ?ch) \<le> length (track_coords ?ch)"
    by simp
  have v: "vertices (track_coords ?ch)
             (track_whens ?dp ?ch @
              replicate (length (track_coords ?ch) - length (track_whens ?dp ?ch)) (Num 0))
           = map Some [Num 1, Num 2, Num 3, Num 1000, Num 4, Num 5, Num 6, Num 0,
                       Num 0, Num 0, Num 0, Num 0]"
    by code_simp
  from readGxTrack_zip[OF h] v h show ?thesis by (simp only: simp_thms)
qed

subsection \<open>Styles and the style function of a feature\<close>

text \<open>
  Modelled from the spec: the style classes (\<^verbatim>\<open>ol/style\<close>) are not part of the
  sources. A style is a composite of a fill, an image, a stroke and a text
  sub-style, each of which may be absent; only what this file reads or sets of
  a sub-style is a field. The label of a text style is the value that
  \<^verbatim>\<open>setText\<close> was given: a string, another primitive value, or some object.
\<close>

datatype label = LUndefined | LNull | LString string | LBoolean bool | LNumber number | LObject

record fill_style =
  fill_color :: "rat list"

record stroke_style =
  stroke_color :: "rat list"
  stroke_width :: rat

record image_style =
  image_src :: string
  image_size :: "rat list option"
  image_scale :: rat

record text_style =
  text_font :: "string option"
  text_scale :: "rat option"
  text_fill :: "fill_style option"
  text_stroke :: "stroke_style option"
  text_label :: label
  text_offsetX :: rat
  text_offsetY :: rat
  text_align :: "string option"

record style =
  style_fill :: "fill_style option"
  style_image :: "image_style option"
  style_stroke :: "stroke_style option"
  style_text :: "text_style option"
  style_zIndex :: "rat option"

text \<open>The defaults of \<open>createStyleDefaults\<close>.\<close>

definition DEFAULT_COLOR :: "rat list" where
  "DEFAULT_COLOR = [255, 255, 255, 1]"

definition DEFAULT_FILL_STYLE :: fill_style where
  "DEFAULT_FILL_STYLE = \<lparr>fill_color = DEFAULT_COLOR\<rparr>"

definition DEFAULT_IMAGE_STYLE_SIZE :: "rat list" where
  "DEFAULT_IMAGE_STYLE_SIZE = [64, 64]"

definition DEFAULT_IMAGE_STYLE :: image_style where
  "DEFAULT_IMAGE_STYLE =
     \<lparr>image_src = ''https://maps.google.com/mapfiles/kml/pushpin/ylw-pushpin.png'',
      image_size = Some DEFAULT_IMAGE_STYLE_SIZE, image_scale = 1 / 2\<rparr>"

definition DEFAULT_STROKE_STYLE :: stroke_style where
  "DEFAULT_STROKE_STYLE = \<lparr>stroke_color = DEFAULT_COLOR, stroke_width = 1\<rparr>"

definition DEFAULT_TEXT_STROKE_STYLE :: stroke_style where
  "DEFAULT_TEXT_STROKE_STYLE = \<lparr>stroke_color = [51, 51, 51, 1], stroke_width = 2\<rparr>"

definition DEFAULT_TEXT_STYLE :: text_style where
  "DEFAULT_TEXT_STYLE =
     \<lparr>text_font = Some ''bold 16px Helvetica'', text_scale = Some (8 / 10),
      text_fill = Some DEFAULT_FILL_STYLE, text_stroke = Some DEFAULT_TEXT_STROKE_STYLE,
      text_label = LUndefined, text_offsetX = 0, text_offsetY = 0, text_align = None\<rparr>"

definition DEFAULT_STYLE :: style where
  "DEFAULT_STYLE =
     \<lparr>style_fill = Some DEFAULT_FILL_STYLE, style_image = Some DEFAULT_IMAGE_STYLE,
      style_stroke = Some DEFAULT_STROKE_STYLE, style_text = Some DEFAULT_TEXT_STYLE,
      style_zIndex = Some 0\<rparr>"

definition DEFAULT_STYLE_ARRAY :: "style list" where
  "DEFAULT_STYLE_ARRAY = [DEFAULT_STYLE]"

text \<open>\<^verbatim>\<open>a || b\<close> for an \<open>a\<close> that may be \<open>undefined\<close>, with the truth value of a
  defined \<open>a\<close>.\<close>

definition or_else :: "'a option \<Rightarrow> ('a \<Rightarrow> bool) \<Rightarrow> 'a option \<Rightarrow> 'a option" where
  "or_else a is_true b = (case a of Some x \<Rightarrow> if is_true x then Some x else b | None \<Rightarrow> b)"

text \<open>\<open>createNameStyleFunction\<close>, for a \<open>foundStyle\<close> that is a style.\<close>

definition createNameStyleFunction :: "style \<Rightarrow> label \<Rightarrow> style" where
  "createNameStyleFunction foundStyle name =
     (let (textOffset, textAlign) =
            (case style_image foundStyle of
               Some img \<Rightarrow>
                 (let imageSize = (case image_size img of None \<Rightarrow> DEFAULT_IMAGE_STYLE_SIZE
                                                         | Some sz \<Rightarrow> sz);
                      imageScale = image_scale img
                  in if length imageSize = 2
                     then ((imageScale * (imageSize ! 0) / 2,
                            - imageScale * (imageSize ! 1) / 2), ''left'')
                     else ((0, 0), ''start''))
             | None \<Rightarrow> ((0, 0), ''start''));
          textStyle =
            (case style_text foundStyle of
               Some foundText \<Rightarrow>
                 foundText
                   \<lparr>text_font := or_else (text_font foundText) (\<lambda>f. f \<noteq> [])
                                   (text_font DEFAULT_TEXT_STYLE),
                    text_scale := or_else (text_scale foundText) (\<lambda>x. x \<noteq> 0)
                                    (text_scale DEFAULT_TEXT_STYLE),
                    text_fill := or_else (text_fill foundText) (\<lambda>_. True)
                                   (text_fill DEFAULT_TEXT_STYLE),
                    text_stroke := or_else (text_stroke foundText) (\<lambda>_. True)
                                     (Some DEFAULT_TEXT_STROKE_STYLE)\<rparr>
             | None \<Rightarrow> DEFAULT_TEXT_STYLE)
      in \<lparr>style_fill = None, style_image = None, style_stroke = None,
          style_text = Some (textStyle
            \<lparr>text_label := name, text_offsetX := fst textOffset,
             text_offsetY := snd textOffset, text_align := Some textAlign\<rparr>),
          style_zIndex = None\<rparr>)"

text \<open>
  The registry \<open>sharedStyles\<close>: \<open>sharedStyles key = None\<close> when \<^verbatim>\<open>key in sharedStyles\<close>
  is false, and otherwise the value under the key: a style array, a string (the
  url of a style map), or \<open>Inherited\<close>, a value that is neither (what the
  object inherits under the key).
\<close>

datatype shared_style = Styles "style list" | StyleUrl string | Inherited

text \<open>
  \<open>findStyle\<close>. The recursion follows the urls of the registry and need not
  end: \<open>None\<close> is a call that never returns a value.
\<close>

partial_function (option) findStyle ::
  "shared_style option \<Rightarrow> style list \<Rightarrow> (string \<rightharpoonup> shared_style) \<Rightarrow> style list option" where
  "findStyle styleValue defaultStyle sharedStyles =
     (case styleValue of
        Some (Styles array) \<Rightarrow> Some array
      | Some (StyleUrl url) \<Rightarrow>
          findStyle
            (sharedStyles
               (if sharedStyles url = None \<and> sharedStyles (CHR ''#'' # url) \<noteq> None
                then CHR ''#'' # url else url))
            defaultStyle sharedStyles
      | _ \<Rightarrow> Some defaultStyle)"


declare findStyle.simps [code]

text \<open>
  The values that this file stores under the keys of an object (the object
  that a placemark is read into, the properties of a feature), their truth
  value in a condition, and the label that \<^verbatim>\<open>setText\<close> makes of one.
\<close>

datatype 'c jsvalue = VUndefined | VNull | VString string | VBoolean bool | VNumber number
  | VArray "'c jsvalue list" | VGeometry "'c geometry" | VStyles "style list"

fun truthy_value :: "'c jsvalue \<Rightarrow> bool" where
  "truthy_value VUndefined = False"
| "truthy_value VNull = False"
| "truthy_value (VString s) = (s \<noteq> [])"
| "truthy_value (VBoolean b) = b"
| "truthy_value (VNumber n) = (case n of Num x \<Rightarrow> x \<noteq> 0 | NaN \<Rightarrow> False)"
| "truthy_value (VArray xs) = True"
| "truthy_value (VGeometry g) = True"
| "truthy_value (VStyles a) = True"

fun label_of :: "'c jsvalue \<Rightarrow> label" where
  "label_of VUndefined = LUndefined"
| "label_of VNull = LNull"
| "label_of (VString s) = LString s"
| "label_of (VBoolean b) = LBoolean b"
| "label_of (VNumber n) = LNumber n"
| "label_of (VArray xs) = LObject"
| "label_of (VGeometry g) = LObject"
| "label_of (VStyles a) = LObject"

text \<open>
  Modelled from the spec: the feature class (\<^verbatim>\<open>ol/Feature.js\<close>) is not part of the
  sources. A feature has an optional identifier, an optional geometry, a style
  function and a mapping of property names to values. The style function of a
  decoded feature is the closure that \<open>createFeatureStyleFunction\<close> returns,
  kept as the values it closes over; the registry is shared with the format
  and is read when the function is called.
\<close>

record style_function =
  closure_style :: "style list option"
  closure_styleUrl :: "string option"
  closure_defaultStyle :: "style list"
  closure_showPointNames :: bool

record 'c feature =
  feature_id :: "string option"
  feature_geometry :: "'c geometry option"
  feature_style :: "style_function option"
  feature_properties :: "string \<rightharpoonup> 'c jsvalue"

definition feature_get :: "'c feature \<Rightarrow> string \<Rightarrow> 'c jsvalue" where
  "feature_get feature key = (case feature_properties feature key of Some v \<Rightarrow> v | None \<Rightarrow> VUndefined)"

text \<open>\<^verbatim>\<open>style.concat(createNameStyleFunction(style[0], name))\<close>: on an empty
  array \<open>style[0]\<close> is \<open>undefined\<close> and \<open>createNameStyleFunction\<close> throws.\<close>

definition concat_name_style :: "style list \<Rightarrow> label \<Rightarrow> style list option" where
  "concat_name_style style name =
     (case style of
        [] \<Rightarrow> None
      | first # _ \<Rightarrow> Some (style @ [createNameStyleFunction first name]))"

text \<open>
  The function that \<open>createFeatureStyleFunction\<close> returns, applied to a feature
  and a resolution. \<open>None\<close>: the call throws or does not return.
\<close>

definition createFeatureStyleFunction ::
  "style list option \<Rightarrow> string option \<Rightarrow> style list \<Rightarrow> (string \<rightharpoonup> shared_style) \<Rightarrow> bool
     \<Rightarrow> 'c feature \<Rightarrow> rat \<Rightarrow> style list option" where
  "createFeatureStyleFunction style styleUrl defaultStyle sharedStyles showPointNames
       feature resolution =
     (let drawName =
            (if showPointNames
             then (case feature_geometry feature of
                     Some geometry \<Rightarrow> getType geometry = POINT
                   | None \<Rightarrow> True)
             else False);
          name = (if drawName then feature_get feature ''name'' else VString []);
          drawName = (drawName \<and> truthy_value name)
      in case style of
           Some style \<Rightarrow> if drawName then concat_name_style style (label_of name) else Some style
         | None \<Rightarrow>
             (case styleUrl of
                Some url \<Rightarrow>
                  if url \<noteq> [] then
                    (case findStyle (Some (StyleUrl url)) defaultStyle sharedStyles of
                       Some foundStyle \<Rightarrow>
                         if drawName then concat_name_style foundStyle (label_of name)
                         else Some foundStyle
                     | None \<Rightarrow> None)
                  else if drawName then concat_name_style defaultStyle (label_of name)
                  else Some defaultStyle
              | None \<Rightarrow>
                  if drawName then concat_name_style defaultStyle (label_of name)
                  else Some defaultStyle))"


subsubsection \<open>What the specification says of the style resolution\<close>

text \<open>
  The resolution of a registry value: a style array is the result; a string
  is looked up in the registry, with a leading \<^verbatim>\<open>#\<close> when the bare key is
  absent and the key with \<^verbatim>\<open>#\<close> is present, and the value found is resolved in
  turn; an absent value, or one that is neither, gives the default style.
\<close>

inductive resolves :: "(string \<rightharpoonup> shared_style) \<Rightarrow> style list \<Rightarrow> shared_style option \<Rightarrow> style list \<Rightarrow> bool"
  for sharedStyles :: "string \<rightharpoonup> shared_style" and defaultStyle :: "style list" where
  resolves_array: "resolves sharedStyles defaultStyle (Some (Styles array)) array"
| resolves_url:
    "key = (if sharedStyles url = None \<and> sharedStyles (CHR ''#'' # url) \<noteq> None
            then CHR ''#'' # url else url) \<Longrightarrow>
     resolves sharedStyles defaultStyle (sharedStyles key) found \<Longrightarrow>
     resolves sharedStyles defaultStyle (Some (StyleUrl url)) found"
| resolves_missing: "resolves sharedStyles defaultStyle None defaultStyle"
| resolves_other: "resolves sharedStyles defaultStyle (Some Inherited) defaultStyle"

text \<open>The style array of a placemark: the inline style when there is one;
  else what its style url resolves to; else the default style.\<close>

definition resolved ::
  "style list option \<Rightarrow> string option \<Rightarrow> style list \<Rightarrow> (string \<rightharpoonup> shared_style)
     \<Rightarrow> style list \<Rightarrow> bool" where
  "resolved style styleUrl defaultStyle sharedStyles base \<longleftrightarrow>
     (case style of
        Some inline \<Rightarrow> base = inline
      | None \<Rightarrow>
          (case styleUrl of
             Some url \<Rightarrow>
               if url \<noteq> [] then resolves sharedStyles defaultStyle (Some (StyleUrl url)) base
               else base = defaultStyle
           | None \<Rightarrow> base = defaultStyle))"

text \<open>When a name style is appended: \<open>showPointNames\<close> is on, the feature has
  no geometry or a point, and its name is true in a condition.\<close>

definition draws_name :: "bool \<Rightarrow> 'c feature \<Rightarrow> bool" where
  "draws_name showPointNames feature \<longleftrightarrow>
     showPointNames \<and>
     (case feature_geometry feature of Some geometry \<Rightarrow> getType geometry = POINT | None \<Rightarrow> True) \<and>
     truthy_value (feature_get feature ''name'')"

text \<open>A point placemark named Depot, and a style of one red line.\<close>

definition depot :: "number feature" where
  "depot = \<lparr>feature_id = None,
            feature_geometry = Some (Point XYZ [Num 1, Num 2, Num 0] no_properties),
            feature_style = None,
            feature_properties = [''name'' \<mapsto> VString ''Depot'']\<rparr>"

definition thin_line :: style where
  "thin_line = \<lparr>style_fill = None, style_image = None,
                 style_stroke = Some \<lparr>stroke_color = [255, 0, 0, 1], stroke_width = 1\<rparr>,
                 style_text = None, style_zIndex = None\<rparr>"

subsubsection \<open>Properties of the style resolution\<close>

lemma findStyle_resolves:
  assumes "findStyle styleValue defaultStyle sharedStyles = Some found"
  shows "resolves sharedStyles defaultStyle styleValue found"
proof (rule findStyle.raw_induct[where P = "\<lambda>v d S r. resolves S d v r", OF _ assms])
  fix findStyle' v d S r
  assume IH: "\<And>v' d' S' r'. findStyle' v' d' S' = Some r' \<Longrightarrow> resolves S' d' v' r'"
    and eq: "(case v of
                None \<Rightarrow> Some d
              | Some (Styles array) \<Rightarrow> Some array
              | Some (StyleUrl url) \<Rightarrow>
                  findStyle'
                    (S (if S url = None \<and> S (CHR ''#'' # url) \<noteq> None then CHR ''#'' # url else url))
                    d S
              | Some Inherited \<Rightarrow> Some d) = Some r"
  show "resolves S d v r"
  proof (cases v)
    case None
    with eq show ?thesis by (simp add: resolves_missing)
  next
    case (Some w)
    show ?thesis
    proof (cases w)
      case (Styles array)
      with Some eq show ?thesis by (simp add: resolves_array)
    next
      case (StyleUrl url)
      let ?key = "if S url = None \<and> S (CHR ''#'' # url) \<noteq> None then CHR ''#'' # url else url"
      from StyleUrl Some eq have "findStyle' (S ?key) d S = Some r" by simp
      then have "resolves S d (S ?key) r" by (rule IH)
      then show ?thesis unfolding Some StyleUrl by (rule resolves_url[OF refl])
    next
      case Inherited
      with Some eq show ?thesis by (simp add: resolves_other)
    qed
  qed
qed

lemma resolves_findStyle:
  "resolves sharedStyles defaultStyle styleValue found \<Longrightarrow>
   findStyle styleValue defaultStyle sharedStyles = Some found"
proof (induction rule: resolves.induct)
  case (resolves_array array)
  show ?case by (subst findStyle.simps) simp
next
  case (resolves_url key url found)
  then show ?case by (subst findStyle.simps) simp
next
  case resolves_missing
  show ?case by (subst findStyle.simps) simp
next
  case resolves_other
  show ?case by (subst findStyle.simps) simp
qed

lemma findStyle_iff:
  "findStyle styleValue defaultStyle sharedStyles = Some found \<longleftrightarrow>
   resolves sharedStyles defaultStyle styleValue found"
  using findStyle_resolves resolves_findStyle by blast

lemma createFeatureStyleFunction_resolved:
  assumes "resolved style styleUrl defaultStyle sharedStyles base"
  shows "createFeatureStyleFunction style styleUrl defaultStyle sharedStyles showPointNames
           feature resolution
         = (if draws_name showPointNames feature
            then concat_name_style base (label_of (feature_get feature ''name'')) else Some base)"
proof (cases style)
  case (Some inline)
  with assms have "base = inline" by (simp add: resolved_def)
  with Some show ?thesis
    by (auto simp: createFeatureStyleFunction_def draws_name_def Let_def)
next
  case None
  show ?thesis
  proof (cases "\<exists>url. styleUrl = Some url \<and> url \<noteq> []")
    case True
    then obtain url where url: "styleUrl = Some url" "url \<noteq> []" by blast
    with assms None have "resolves sharedStyles defaultStyle (Some (StyleUrl url)) base"
      by (simp add: resolved_def)
    then have "findStyle (Some (StyleUrl url)) defaultStyle sharedStyles = Some base"
      by (rule resolves_findStyle)
    with None url show ?thesis
      by (auto simp: createFeatureStyleFunction_def draws_name_def Let_def)
  next
    case False
    with assms None have "base = defaultStyle"
      by (auto simp: resolved_def split: option.splits if_splits)
    with None False show ?thesis
      by (auto simp: createFeatureStyleFunction_def draws_name_def Let_def split: option.splits)
  qed
qed

lemma createFeatureStyleFunction_unresolved:
  assumes "\<forall>base. \<not> resolved style styleUrl defaultStyle sharedStyles base"
  shows "createFeatureStyleFunction style styleUrl defaultStyle sharedStyles showPointNames
           feature resolution = None"
proof -
  from assms have style: "style = None" by (cases style) (auto simp: resolved_def)
  from assms style obtain url where url: "styleUrl = Some url" "url \<noteq> []"
    by (cases styleUrl) (auto simp: resolved_def split: if_splits)
  from assms style url have nr: "\<forall>base. \<not> resolves sharedStyles defaultStyle (Some (StyleUrl url)) base"
    by (simp add: resolved_def)
  have "findStyle (Some (StyleUrl url)) defaultStyle sharedStyles = None"
  proof (cases "findStyle (Some (StyleUrl url)) defaultStyle sharedStyles")
    case (Some found)
    then have "resolves sharedStyles defaultStyle (Some (StyleUrl url)) found"
      by (rule findStyle_resolves)
    with nr show ?thesis by blast
  qed simp
  with style url show ?thesis
    by (simp add: createFeatureStyleFunction_def Let_def)
qed

text \<open>
  Claim C2, amended. The style array of a placemark is the inline style when
  one was decoded, whatever the style url; otherwise what the style url
  resolves to in the registry (with the retry with a leading \<^verbatim>\<open>#\<close>, following
  the urls that the registry holds until a style array is reached, and the
  default style for an absent key); otherwise the default style. The style
  function returns that array, and when a name is drawn it returns the array
  (which then is not empty) followed by the name style. When the style url
  resolves to nothing (the urls of the registry cycle) the function returns
  no value.
\<close>

theorem createFeatureStyleFunction_resolution:
  "(resolved style styleUrl defaultStyle sharedStyles base \<and>
      (draws_name showPointNames feature \<longrightarrow> base \<noteq> []) \<longrightarrow>
    createFeatureStyleFunction style styleUrl defaultStyle sharedStyles showPointNames
        feature resolution
      = Some (if draws_name showPointNames feature
              then base @ [createNameStyleFunction (hd base) (label_of (feature_get feature ''name''))]
              else base)) \<and>
   ((\<forall>base. \<not> resolved style styleUrl defaultStyle sharedStyles base) \<longrightarrow>
    createFeatureStyleFunction style styleUrl defaultStyle sharedStyles showPointNames
        feature resolution = None)"
proof (intro conjI impI)
  assume a: "resolved style styleUrl defaultStyle sharedStyles base \<and>
      (draws_name showPointNames feature \<longrightarrow> base \<noteq> [])"
  then have r: "resolved style styleUrl defaultStyle sharedStyles base" by simp
  show "createFeatureStyleFunction style styleUrl defaultStyle sharedStyles showPointNames
        feature resolution
      = Some (if draws_name showPointNames feature
              then base @ [createNameStyleFunction (hd base) (label_of (feature_get feature ''name''))]
              else base)"
  proof (cases "draws_name showPointNames feature")
    case True
    with a obtain b bs where "base = b # bs" by (cases base) auto
    with True show ?thesis
      by (simp add: createFeatureStyleFunction_resolved[OF r] concat_name_style_def)
  next
    case False
    then show ?thesis by (simp add: createFeatureStyleFunction_resolved[OF r])
  qed
next
  assume "\<forall>base. \<not> resolved style styleUrl defaultStyle sharedStyles base"
  then show "createFeatureStyleFunction style styleUrl defaultStyle sharedStyles showPointNames
        feature resolution = None"
    by (rule createFeatureStyleFunction_unresolved)
qed

lemma cycle_unresolved:
  "\<not> resolves [''#a'' \<mapsto> StyleUrl ''#a''] d (Some (StyleUrl ''#a'')) found"
proof
  assume "resolves [''#a'' \<mapsto> StyleUrl ''#a''] d (Some (StyleUrl ''#a'')) found"
  then have "Some (StyleUrl ''#a'') = Some (StyleUrl ''#a'') \<Longrightarrow> False"
  proof (induction "Some (StyleUrl ''#a'')" found rule: resolves.induct)
    case (resolves_url key found)
    then show ?case by simp
  qed
  then show False by simp
qed


text \<open>
  Claim C2, as stated, fails: the inline style is not what the function
  returns for a named point when \<open>showPointNames\<close> is on; the name style is
  appended to it.
\<close>

theorem createFeatureStyleFunction_name_counterexample:
  "createFeatureStyleFunction (Some [thin_line]) (Some ''#pin'') DEFAULT_STYLE_ARRAY Map.empty True
      depot 1
     = Some [thin_line, createNameStyleFunction thin_line (LString ''Depot'')] \<and>
   createFeatureStyleFunction (Some [thin_line]) (Some ''#pin'') DEFAULT_STYLE_ARRAY Map.empty True
      depot 1
     \<noteq> Some [thin_line]"
  by (simp add: createFeatureStyleFunction_def depot_def feature_get_def concat_name_style_def)

theorem createFeatureStyleFunction_resolution_witness:
  "resolved None (Some ''pin'') DEFAULT_STYLE_ARRAY
     [''#pin'' \<mapsto> StyleUrl ''#normal'', ''#normal'' \<mapsto> Styles [thin_line]] [thin_line] \<and>
   createFeatureStyleFunction None (Some ''pin'') DEFAULT_STYLE_ARRAY
     [''#pin'' \<mapsto> StyleUrl ''#normal'', ''#normal'' \<mapsto> Styles [thin_line]] False depot 1
     = Some [thin_line] \<and>
   resolved (Some [thin_line]) (Some ''pin'') DEFAULT_STYLE_ARRAY Map.empty [thin_line] \<and>
   createFeatureStyleFunction (Some [thin_line]) (Some ''pin'') DEFAULT_STYLE_ARRAY Map.empty True
     depot 1
     = Some [thin_line, createNameStyleFunction thin_line (LString ''Depot'')] \<and>
   (\<forall>base. \<not> resolved None (Some ''#a'') DEFAULT_STYLE_ARRAY [''#a'' \<mapsto> StyleUrl ''#a''] base) \<and>
   createFeatureStyleFunction None (Some ''#a'') DEFAULT_STYLE_ARRAY [''#a'' \<mapsto> StyleUrl ''#a'']
     False depot 1 = None"
proof -
  let ?S = "[''#pin'' \<mapsto> StyleUrl ''#normal'', ''#normal'' \<mapsto> Styles [thin_line]]"
  have "resolves ?S DEFAULT_STYLE_ARRAY (?S ''#normal'') [thin_line]"
    by (simp add: resolves_array)
  then have "resolves ?S DEFAULT_STYLE_ARRAY (Some (StyleUrl ''#normal'')) [thin_line]"
    by (rule resolves_url[rotated]) simp
  then have "resolves ?S DEFAULT_STYLE_ARRAY (?S ''#pin'') [thin_line]"
    by simp
  then have "resolves ?S DEFAULT_STYLE_ARRAY (Some (StyleUrl ''pin'')) [thin_line]"
    by (rule resolves_url[rotated]) simp
  then have r1: "resolved None (Some ''pin'') DEFAULT_STYLE_ARRAY ?S [thin_line]"
    by (simp add: resolved_def)
  have r2: "resolved (Some [thin_line]) (Some ''pin'') DEFAULT_STYLE_ARRAY Map.empty [thin_line]"
    by (simp add: resolved_def)
  have r3: "\<forall>base. \<not> resolved None (Some ''#a'') DEFAULT_STYLE_ARRAY [''#a'' \<mapsto> StyleUrl ''#a''] base"
    by (simp add: resolved_def cycle_unresolved)
  have d: "draws_name True depot" "\<not> draws_name False depot"
    "feature_get depot ''name'' = VString ''Depot''"
    by (simp_all add: draws_name_def depot_def feature_get_def)
  from createFeatureStyleFunction_resolution[of None "Some ''pin''" DEFAULT_STYLE_ARRAY ?S
      "[thin_line]" False depot 1] r1 d
  have "createFeatureStyleFunction None (Some ''pin'') DEFAULT_STYLE_ARRAY ?S False depot 1
     = Some [thin_line]" by simp
  moreover
  from createFeatureStyleFunction_resolution[of "Some [thin_line]" "Some ''pin''"
      DEFAULT_STYLE_ARRAY Map.empty "[thin_line]" True depot 1] r2 d
  have "createFeatureStyleFunction (Some [thin_line]) (Some ''pin'') DEFAULT_STYLE_ARRAY Map.empty
     True depot 1 = Some [thin_line, createNameStyleFunction thin_line (LString ''Depot'')]"
    by simp
  moreover
  from createFeatureStyleFunction_resolution[of None "Some ''#a''" DEFAULT_STYLE_ARRAY
      "[''#a'' \<mapsto> StyleUrl ''#a'']" _ False depot 1] r3
  have "createFeatureStyleFunction None (Some ''#a'') DEFAULT_STYLE_ARRAY
     [''#a'' \<mapsto> StyleUrl ''#a''] False depot 1 = None"
    by blast
  ultimately show ?thesis using r1 r2 r3 by blast
qed

lemma createNameStyleFunction_text_only:
  "\<exists>textStyle. createNameStyleFunction foundStyle name
      = \<lparr>style_fill = None, style_image = None, style_stroke = None,
         style_text = Some textStyle, style_zIndex = None\<rparr> \<and> text_label textStyle = name"
  by (auto simp: createNameStyleFunction_def Let_def split: prod.splits option.splits)

text \<open>
  Claim C8, as stated, fails where the style resolution gives no first style:
  for a placemark whose style url leads into a cycle of the registry the style
  function never returns, and on an empty default style it throws.
\<close>

theorem createFeatureStyleFunction_point_name_counterexample:
  "createFeatureStyleFunction None (Some ''#a'') DEFAULT_STYLE_ARRAY [''#a'' \<mapsto> StyleUrl ''#a'']
     True depot 1 = None \<and>
   createFeatureStyleFunction None None [] Map.empty True depot 1 = None"
proof
  have "\<forall>base. \<not> resolved None (Some ''#a'') DEFAULT_STYLE_ARRAY [''#a'' \<mapsto> StyleUrl ''#a''] base"
    by (simp add: resolved_def cycle_unresolved)
  then show "createFeatureStyleFunction None (Some ''#a'') DEFAULT_STYLE_ARRAY
     [''#a'' \<mapsto> StyleUrl ''#a''] True depot 1 = None"
    by (rule createFeatureStyleFunction_unresolved)
  show "createFeatureStyleFunction None None [] Map.empty True depot 1 = None"
    by (simp add: createFeatureStyleFunction_def depot_def feature_get_def concat_name_style_def)
qed

text \<open>
  Claim C8, amended. For a feature whose geometry is a point and whose name
  is a non-empty string, with no inline style and a style resolution that ends
  in a non-empty style array: with \<open>showPointNames\<close> on, the style function
  returns that array followed by one more style, which has no image, no stroke
  and no fill and carries a text style whose label is the name; with
  \<open>showPointNames\<close> off it returns the array unchanged.
\<close>

theorem createFeatureStyleFunction_point_name:
  assumes "feature_geometry feature = Some geometry" "getType geometry = POINT"
    and "feature_properties feature ''name'' = Some (VString name)" "name \<noteq> []"
    and "resolved None styleUrl defaultStyle sharedStyles base" "base \<noteq> []"
  shows "\<exists>textStyle.
           createFeatureStyleFunction None styleUrl defaultStyle sharedStyles True feature resolution
             = Some (base @ [\<lparr>style_fill = None, style_image = None, style_stroke = None,
                              style_text = Some textStyle, style_zIndex = None\<rparr>]) \<and>
           text_label textStyle = LString name \<and>
           createFeatureStyleFunction None styleUrl defaultStyle sharedStyles False feature resolution
             = Some base"
proof -
  from assms(1-4) have d: "draws_name True feature" "\<not> draws_name False feature"
    "feature_get feature ''name'' = VString name"
    by (simp_all add: draws_name_def feature_get_def)
  from assms(6) obtain b bs where b: "base = b # bs" by (cases base) auto
  obtain textStyle where t: "createNameStyleFunction b (LString name)
      = \<lparr>style_fill = None, style_image = None, style_stroke = None,
         style_text = Some textStyle, style_zIndex = None\<rparr>" "text_label textStyle = LString name"
    using createNameStyleFunction_text_only[of b "LString name"] by blast
  have on: "createFeatureStyleFunction None styleUrl defaultStyle sharedStyles True feature resolution
             = Some (base @ [createNameStyleFunction b (LString name)])"
    using d b by (simp add: createFeatureStyleFunction_resolved[OF assms(5)] concat_name_style_def)
  have off: "createFeatureStyleFunction None styleUrl defaultStyle sharedStyles False feature resolution
             = Some base"
    using d by (simp add: createFeatureStyleFunction_resolved[OF assms(5)])
  show ?thesis
    using on off t by (intro exI[of _ textStyle]) simp
qed

theorem createFeatureStyleFunction_point_name_witness:
  "\<exists>textStyle.
     createFeatureStyleFunction None None DEFAULT_STYLE_ARRAY Map.empty True depot 1
       = Some [DEFAULT_STYLE,
               \<lparr>style_fill = None, style_image = None, style_stroke = None,
                style_text = Some textStyle, style_zIndex = None\<rparr>] \<and>
     text_label textStyle = LString ''Depot'' \<and>
     createFeatureStyleFunction None None DEFAULT_STYLE_ARRAY Map.empty False depot 1
       = Some [DEFAULT_STYLE]"
proof -
  have r: "resolved None None DEFAULT_STYLE_ARRAY Map.empty DEFAULT_STYLE_ARRAY"
    by (simp add: resolved_def)
  have g: "feature_geometry depot = Some (Point XYZ [Num 1, Num 2, Num 0] no_properties)"
    "getType (Point XYZ [Num 1, Num 2, Num 0] no_properties) = POINT"
    "feature_properties depot ''name'' = Some (VString ''Depot'')" "''Depot'' \<noteq> []"
    "DEFAULT_STYLE_ARRAY \<noteq> []"
    by (simp_all add: depot_def DEFAULT_STYLE_ARRAY_def)
  from createFeatureStyleFunction_point_name[OF g(1-4) r g(5), of 1]
  show ?thesis by (simp add: DEFAULT_STYLE_ARRAY_def)
qed

subsection \<open>Placemarks and readPlacemark\<close>

text \<open>
  Modelled from the spec: the tree walker (\<^verbatim>\<open>ol/xml.js\<close>) and the readers of
  \<^verbatim>\<open>ol/format/xsd.js\<close> are not part of the sources. \<open>parseNode\<close> calls, for each
  child element in document order, the parser that the table names for the
  namespace and the local name of the child, and calls nothing for a child the
  table does not name. \<open>pushParseAndPop\<close> does so with a given object on top of
  the stack and returns that object. A parser made by
  \<open>makeObjectPropertySetter\<close> stores what its reader returns under the local
  name of the child (or under the property given), unless the reader returns
  \<open>undefined\<close>. \<open>readString\<close> returns the text of an element, \<open>readBoolean\<close> a
  boolean or \<open>undefined\<close>.

  An element is represented by the children that its table names, each with
  what its reader returns.
\<close>

text \<open>\<open>DATA_PARSERS\<close>: a \<^verbatim>\<open>displayName\<close> or a \<^verbatim>\<open>value\<close> child, with its text.\<close>

datatype data_child = DisplayName string | DataValue string

text \<open>\<open>SCHEMA_DATA_PARSERS\<close>: a \<^verbatim>\<open>SimpleData\<close> child, with its \<^verbatim>\<open>name\<close> attribute
  (\<open>None\<close> for \<open>null\<close>) and its text.\<close>

datatype simple_data = SimpleData "string option" string

text \<open>\<open>EXTENDED_DATA_PARSERS\<close>: a \<^verbatim>\<open>Data\<close> child, with its \<^verbatim>\<open>name\<close> attribute and its
  children, or a \<^verbatim>\<open>SchemaData\<close> child.\<close>

datatype extended_data_child =
    Data "string option" "data_child list"
  | SchemaData "simple_data list"

text \<open>What \<open>readStyleMapValue\<close> returns, when it is not \<open>undefined\<close>: a style
  array or a string.\<close>

datatype style_map_value = MapStyle "style list" | MapUrl string

text \<open>\<open>REGION_PARSERS\<close>: a \<^verbatim>\<open>LatLonAltBox\<close> child, with the four values that
  \<open>latLonAltBoxParser\<close> stores (the extent, the altitude mode, the minimal and
  the maximal altitude), or a \<^verbatim>\<open>Lod\<close> child, with the four values that
  \<open>lodParser\<close> stores.\<close>

datatype 'c region_child =
    LatLonAltBox "'c jsvalue" "'c jsvalue" "'c jsvalue" "'c jsvalue"
  | Lod "'c jsvalue" "'c jsvalue" "'c jsvalue" "'c jsvalue"

text \<open>
  \<open>PLACEMARK_PARSERS\<close>: a geometry element (\<^verbatim>\<open>MultiGeometry\<close>, \<^verbatim>\<open>LineString\<close>,
  \<^verbatim>\<open>LinearRing\<close>, \<^verbatim>\<open>Point\<close>, \<^verbatim>\<open>Polygon\<close>, \<^verbatim>\<open>gx:MultiTrack\<close>, \<^verbatim>\<open>gx:Track\<close>) with the
  geometry that its reader returns (\<open>None\<close> for \<open>undefined\<close>); a \<^verbatim>\<open>Style\<close> with the
  array that \<open>readStyle\<close> returns; a \<^verbatim>\<open>StyleMap\<close> with what \<open>readStyleMapValue\<close>
  returns; an element read as a string (by \<open>readString\<close> or \<open>readURI\<close>) or as a
  boolean (by \<open>readBoolean\<close>), with its local name; an \<^verbatim>\<open>ExtendedData\<close>; a
  \<^verbatim>\<open>Region\<close>.
\<close>

datatype 'c placemark_child =
    Geometry "'c geometry option"
  | Style "style list"
  | StyleMap "style_map_value option"
  | StringElement string string
  | BooleanElement string "bool option"
  | ExtendedData "extended_data_child list"
  | Region "'c region_child list"

text \<open>A placemark element: its \<^verbatim>\<open>id\<close> attribute (\<open>None\<close> for \<open>null\<close>) and its
  children.\<close>

datatype 'c placemark = Placemark "string option" "'c placemark_child list"

text \<open>
  An object: the own properties by name. \<open>object[key]\<close> is \<open>undefined\<close> for a
  name that is not a property (none of the names read here is inherited), and
  \<open>object[key] = v\<close> with a string or \<open>undefined\<close> for \<open>v\<close> makes no property
  when the key is \<^verbatim>\<open>__proto__\<close>.
\<close>

type_synonym 'c object = "string \<rightharpoonup> 'c jsvalue"

definition object_get :: "'c object \<Rightarrow> string \<Rightarrow> 'c jsvalue" where
  "object_get object key = (case object key of Some v \<Rightarrow> v | None \<Rightarrow> VUndefined)"

definition object_set :: "'c object \<Rightarrow> string \<Rightarrow> 'c jsvalue \<Rightarrow> 'c object" where
  "object_set object key v = (if key = ''__proto__'' then object else object(key \<mapsto> v))"

text \<open>
  The property name that a value used as a key stands for. The key of
  \<open>dataParser\<close> is a string or \<open>undefined\<close> (lemma \<open>readPlacemark_object_stringish\<close>
  below), so the last equation is not reached from \<open>readPlacemark\<close>.
\<close>

fun to_key :: "'c jsvalue \<Rightarrow> string" where
  "to_key (VString s) = s"
| "to_key VUndefined = ''undefined''"
| "to_key VNull = ''null''"
| "to_key (VBoolean b) = (if b then ''true'' else ''false'')"
| "to_key _ = ''[object Object]''"

fun data_child_parser :: "data_child \<Rightarrow> 'c object \<Rightarrow> 'c object" where
  "data_child_parser (DisplayName s) object = object(''displayName'' \<mapsto> VString s)"
| "data_child_parser (DataValue s) object = object(''value'' \<mapsto> VString s)"

text \<open>\<open>dataParser\<close>: the children are parsed into the object on top of the
  stack, which is the object of the placemark.\<close>

definition dataParser :: "string option \<Rightarrow> data_child list \<Rightarrow> 'c object \<Rightarrow> 'c object" where
  "dataParser name children object =
     (let featureObject = fold data_child_parser children object;
          featureObject =
            (case name of
               Some name \<Rightarrow> object_set featureObject name (object_get featureObject ''value'')
             | None \<Rightarrow>
                 if object_get featureObject ''displayName'' \<noteq> VNull
                 then object_set featureObject (to_key (object_get featureObject ''displayName''))
                        (object_get featureObject ''value'')
                 else featureObject)
      in featureObject(''value'' := None))"

fun simpleDataParser :: "simple_data \<Rightarrow> 'c object \<Rightarrow> 'c object" where
  "simpleDataParser (SimpleData (Some name) data) featureObject =
     object_set featureObject name (VString data)"
| "simpleDataParser (SimpleData None data) featureObject = featureObject"

definition schemaDataParser :: "simple_data list \<Rightarrow> 'c object \<Rightarrow> 'c object" where
  "schemaDataParser children object = fold simpleDataParser children object"

fun extended_data_child_parser :: "extended_data_child \<Rightarrow> 'c object \<Rightarrow> 'c object" where
  "extended_data_child_parser (Data name children) object = dataParser name children object"
| "extended_data_child_parser (SchemaData children) object = schemaDataParser children object"

definition extendedDataParser :: "extended_data_child list \<Rightarrow> 'c object \<Rightarrow> 'c object" where
  "extendedDataParser children object = fold extended_data_child_parser children object"

text \<open>\<open>latLonAltBoxParser\<close> and \<open>lodParser\<close> store their values in the object on
  top of the stack, which is the object of the placemark.\<close>

fun region_child_parser :: "'c region_child \<Rightarrow> 'c object \<Rightarrow> 'c object" where
  "region_child_parser (LatLonAltBox extent altMode minAltitude maxAltitude) regionObject =
     regionObject(''extent'' \<mapsto> extent, ''altitudeMode'' \<mapsto> altMode,
                  ''minAltitude'' \<mapsto> minAltitude, ''maxAltitude'' \<mapsto> maxAltitude)"
| "region_child_parser (Lod minLodPixels maxLodPixels minFadeExtent maxFadeExtent) lodObject =
     lodObject(''minLodPixels'' \<mapsto> minLodPixels, ''maxLodPixels'' \<mapsto> maxLodPixels,
               ''minFadeExtent'' \<mapsto> minFadeExtent, ''maxFadeExtent'' \<mapsto> maxFadeExtent)"

definition regionParser :: "'c region_child list \<Rightarrow> 'c object \<Rightarrow> 'c object" where
  "regionParser children object = fold region_child_parser children object"

text \<open>\<open>placemarkStyleMapParser\<close>: nothing is stored for a value that is not
  truthy (\<open>undefined\<close>, the empty string).\<close>

fun placemarkStyleMapParser :: "style_map_value option \<Rightarrow> 'c object \<Rightarrow> 'c object" where
  "placemarkStyleMapParser None placemarkObject = placemarkObject"
| "placemarkStyleMapParser (Some (MapStyle array)) placemarkObject =
     placemarkObject(''Style'' \<mapsto> VStyles array)"
| "placemarkStyleMapParser (Some (MapUrl url)) placemarkObject =
     (if url = [] then placemarkObject else placemarkObject(''styleUrl'' \<mapsto> VString url))"

text \<open>The names of \<open>PLACEMARK_PARSERS\<close> that are read as a string and as a
  boolean.\<close>

definition PLACEMARK_STRINGS :: "string list" where
  "PLACEMARK_STRINGS = [''address'', ''description'', ''name'', ''phoneNumber'', ''styleUrl'']"

definition PLACEMARK_BOOLEANS :: "string list" where
  "PLACEMARK_BOOLEANS = [''open'', ''visibility'']"

fun placemark_child_parser :: "'c placemark_child \<Rightarrow> 'c object \<Rightarrow> 'c object" where
  "placemark_child_parser (Geometry None) object = object"
| "placemark_child_parser (Geometry (Some geometry)) object =
     object(''geometry'' \<mapsto> VGeometry geometry)"
| "placemark_child_parser (Style array) object = object(''Style'' \<mapsto> VStyles array)"
| "placemark_child_parser (StyleMap v) object = placemarkStyleMapParser v object"
| "placemark_child_parser (StringElement localName s) object =
     (if localName \<in> set PLACEMARK_STRINGS then object(localName \<mapsto> VString s) else object)"
| "placemark_child_parser (BooleanElement localName None) object = object"
| "placemark_child_parser (BooleanElement localName (Some b)) object =
     (if localName \<in> set PLACEMARK_BOOLEANS then object(localName \<mapsto> VBoolean b) else object)"
| "placemark_child_parser (ExtendedData children) object = extendedDataParser children object"
| "placemark_child_parser (Region children) object = regionParser children object"

text \<open>The state of the format: the fields that the constructor sets (the
  default data projection by its code).\<close>

record kml =
  kml_defaultStyle :: "style list"
  kml_extractStyles :: bool
  kml_writeStyles :: bool
  kml_sharedStyles :: "string \<rightharpoonup> shared_style"
  kml_showPointNames :: bool
  kml_defaultDataProjection :: string

text \<open>
  The values of \<open>object['geometry']\<close>, \<open>object['Style']\<close> and \<open>object['styleUrl']\<close>,
  as the feature and its style function take them: a geometry, a style array, a
  string, or nothing for a value that is not truthy. The result is \<open>None\<close> for
  any other value (a string that an extended-data entry named \<^verbatim>\<open>geometry\<close> or
  \<^verbatim>\<open>Style\<close> has stored): the feature class and the style function are then
  handed a value of another type, and the model says nothing about it.
\<close>

fun geometry_slot :: "'c jsvalue \<Rightarrow> 'c geometry option option" where
  "geometry_slot (VGeometry geometry) = Some (Some geometry)"
| "geometry_slot v = (if truthy_value v then None else Some None)"

fun style_slot :: "'c jsvalue \<Rightarrow> style list option option" where
  "style_slot (VStyles array) = Some (Some array)"
| "style_slot v = (if truthy_value v then None else Some None)"

fun url_slot :: "'c jsvalue \<Rightarrow> string option option" where
  "url_slot (VString url) = Some (Some url)"
| "url_slot v = (if truthy_value v then None else Some None)"

text \<open>
  \<open>readPlacemark_\<close> (a name cannot end with an underscore here). The object
  that \<open>pushParseAndPop\<close> returns is the object given, so the test \<open>!object\<close>
  fails. Modelled from the spec: \<open>transformWithOptions\<close> (\<^verbatim>\<open>ol/format/Feature.js\<close>)
  is not part of the sources; coordinates are not reprojected here, which is
  reading without a feature projection. The feature keeps its geometry apart
  from its other properties; \<open>setProperties\<close> stores every property left in the
  object. \<open>None\<close>: a slot holds a value of another type (see above).
\<close>

definition readPlacemark :: "kml \<Rightarrow> 'c placemark \<Rightarrow> 'c feature option" where
  "readPlacemark this node =
     (case node of Placemark ident children \<Rightarrow>
        (let object = fold placemark_child_parser children [''geometry'' \<mapsto> VNull]
         in case geometry_slot (object_get object ''geometry'') of
              None \<Rightarrow> None
            | Some geometry \<Rightarrow>
                (case (if kml_extractStyles this
                       then (case style_slot (object_get object ''Style'') of
                               None \<Rightarrow> None
                             | Some style \<Rightarrow>
                                 (case url_slot (object_get object ''styleUrl'') of
                                    None \<Rightarrow> None
                                  | Some styleUrl \<Rightarrow>
                                      Some (Some \<lparr>closure_style = style,
                                                   closure_styleUrl = styleUrl,
                                                   closure_defaultStyle = kml_defaultStyle this,
                                                   closure_showPointNames = kml_showPointNames this\<rparr>)))
                       else Some None) of
                   None \<Rightarrow> None
                 | Some styleFunction \<Rightarrow>
                     Some \<lparr>feature_id = ident, feature_geometry = geometry,
                           feature_style = styleFunction,
                           feature_properties = object(''geometry'' := None, ''Style'' := None)\<rparr>)))"

subsubsection \<open>Which child writes which property\<close>











text \<open>A placemark with a \<^verbatim>\<open>description\<close> element and, after it, an extended-data
  entry of the same name.\<close>

definition example_placemark :: "number placemark" where
  "example_placemark =
     Placemark (Some ''p1'')
       [StringElement ''name'' ''Depot'',
        StringElement ''description'' ''from the description element'',
        Geometry (Some (Point XYZ [Num 1, Num 2, Num 0] no_properties)),
        ExtendedData [Data (Some ''description'') [DataValue ''from the extended data'']],
        BooleanElement ''visibility'' (Some True)]"

definition example_kml :: kml where
  "example_kml =
     \<lparr>kml_defaultStyle = DEFAULT_STYLE_ARRAY, kml_extractStyles = True, kml_writeStyles = True,
      kml_sharedStyles = Map.empty, kml_showPointNames = True,
      kml_defaultDataProjection = ''EPSG:4326''\<rparr>"

subsubsection \<open>Extended data and the properties of the feature\<close>





































text \<open>The feature that the example placemark decodes to.\<close>

lemma readPlacemark_example:
  "readPlacemark example_kml example_placemark
     = Some \<lparr>feature_id = Some ''p1'',
             feature_geometry = Some (Point XYZ [Num 1, Num 2, Num 0] no_properties),
             feature_style = Some \<lparr>closure_style = None, closure_styleUrl = None,
                                    closure_defaultStyle = DEFAULT_STYLE_ARRAY,
                                    closure_showPointNames = True\<rparr>,
             feature_properties =
               [''name'' \<mapsto> VString ''Depot'',
                ''description'' \<mapsto> VString ''from the extended data'',
                ''visibility'' \<mapsto> VBoolean True]\<rparr>"
  by (auto simp add: readPlacemark_def example_placemark_def example_kml_def extendedDataParser_def
      dataParser_def object_get_def object_set_def Let_def PLACEMARK_STRINGS_def
      PLACEMARK_BOOLEANS_def)

text \<open>In the other order the \<^verbatim>\<open>description\<close> element is the last writer, and its
  text is the property.\<close>

lemma readPlacemark_scalar_after_extended_data:
  "\<exists>feature.
     readPlacemark example_kml
       (Placemark None
          [ExtendedData [Data (Some ''description'') [DataValue ''from the extended data'']],
           StringElement ''description'' ''from the description element''])
       = Some (feature :: number feature) \<and>
     feature_properties feature ''description'' = Some (VString ''from the description element'')"
  by (simp add: readPlacemark_def extendedDataParser_def dataParser_def object_get_def
      object_set_def Let_def example_kml_def PLACEMARK_STRINGS_def)

subsection \<open>readFeatureFromNode and readFeaturesFromNode\<close>

text \<open>
  An element node: its namespace (\<open>None\<close> for \<open>null\<close>), its local name, its
  child elements in document order, and the rest of it (attributes, text) as
  a value of any type.
\<close>

datatype 'a node =
  Node (namespaceURI: "string option") (localName: string) (content: 'a)
       (elementChildren: "'a node list")

definition NAMESPACE_URIS :: "string option list" where
  "NAMESPACE_URIS =
     [None,
      Some ''http://earth.google.com/kml/2.0'',
      Some ''http://earth.google.com/kml/2.1'',
      Some ''http://earth.google.com/kml/2.2'',
      Some ''http://www.opengis.net/kml/2.2'']"

text \<open>
  Modelled from the spec: \<open>includes\<close> (\<^verbatim>\<open>ol/array.js\<close>) is not part of the sources;
  it tells whether a value is an element of an array.
\<close>

definition includes_arr :: "'a list \<Rightarrow> 'a \<Rightarrow> bool" where
  "includes_arr arr obj = (obj \<in> set arr)"

text \<open>
  The methods that \<open>readFeatureFromNode\<close> and \<open>readFeaturesFromNode\<close> call on
  the format are parameters: \<open>getReadOptions\<close>, which the format inherits, and
  the private readers \<open>readDocumentOrFolder_\<close> and \<open>readPlacemark_\<close>, applied to
  the state of the format, the node and the object stack. A reader returns its
  value (\<open>None\<close> for \<open>undefined\<close>) and the state that it leaves, or \<open>None\<close> when
  it throws.
\<close>

record ('a, 'o, 'r, 'f) kml_methods =
  method_getReadOptions :: "kml \<Rightarrow> 'a node \<Rightarrow> 'o \<Rightarrow> 'r"
  method_readDocumentOrFolder :: "kml \<Rightarrow> 'a node \<Rightarrow> 'r list \<Rightarrow> ('f list option \<times> kml) option"
  method_readPlacemark :: "kml \<Rightarrow> 'a node \<Rightarrow> 'r list \<Rightarrow> ('f option \<times> kml) option"

text \<open>\<open>readFeatureFromNode\<close>: the feature or \<open>null\<close> (\<open>None\<close>), and the state of
  the format after the call.\<close>

definition readFeatureFromNode ::
  "('a, 'o, 'r, 'f) kml_methods \<Rightarrow> kml \<Rightarrow> 'a node \<Rightarrow> 'o \<Rightarrow> ('f option \<times> kml) option" where
  "readFeatureFromNode methods this node opt_options =
     (if \<not> includes_arr NAMESPACE_URIS (namespaceURI node) then Some (None, this)
      else
        (case method_readPlacemark methods this node
                [method_getReadOptions methods this node opt_options] of
           None \<Rightarrow> None
         | Some (Some feature, this') \<Rightarrow> Some (Some feature, this')
         | Some (None, this') \<Rightarrow> Some (None, this')))"

text \<open>\<open>readFeaturesFromNode\<close>, with the loop over the child elements of a
  \<^verbatim>\<open>kml\<close> element, which extends the array \<open>features\<close>.\<close>

fun readFeaturesFromNode ::
  "('a, 'o, 'r, 'f) kml_methods \<Rightarrow> kml \<Rightarrow> 'a node \<Rightarrow> 'o \<Rightarrow> ('f list \<times> kml) option"
and readFeaturesFromNode_loop ::
  "('a, 'o, 'r, 'f) kml_methods \<Rightarrow> kml \<Rightarrow> 'a node list \<Rightarrow> 'o \<Rightarrow> 'f list
     \<Rightarrow> ('f list \<times> kml) option" where
  "readFeaturesFromNode methods this (Node uri name c children) opt_options =
     (let node = Node uri name c children
      in if \<not> includes_arr NAMESPACE_URIS uri then Some ([], this)
         else if name = ''Document'' \<or> name = ''Folder'' then
           (case method_readDocumentOrFolder methods this node
                   [method_getReadOptions methods this node opt_options] of
              None \<Rightarrow> None
            | Some (Some features, this') \<Rightarrow> Some (features, this')
            | Some (None, this') \<Rightarrow> Some ([], this'))
         else if name = ''Placemark'' then
           (case method_readPlacemark methods this node
                   [method_getReadOptions methods this node opt_options] of
              None \<Rightarrow> None
            | Some (Some feature, this') \<Rightarrow> Some ([feature], this')
            | Some (None, this') \<Rightarrow> Some ([], this'))
         else if name = ''kml'' then readFeaturesFromNode_loop methods this children opt_options []
         else Some ([], this))"
| "readFeaturesFromNode_loop methods this [] opt_options features = Some (features, this)"
| "readFeaturesFromNode_loop methods this (n # siblings) opt_options features =
     (case readFeaturesFromNode methods this n opt_options of
        None \<Rightarrow> None
      | Some (fs, this') \<Rightarrow>
          readFeaturesFromNode_loop methods this' siblings opt_options (features @ fs))"

text \<open>
  Methods for the examples: the placemark reader is \<open>readPlacemark\<close> on the
  content of the node, and the reader of documents stands for a document with
  one shared style and no placemark: it registers the style and returns no
  feature.
\<close>

definition example_methods :: "(number placemark, unit, unit, number feature) kml_methods" where
  "example_methods =
     \<lparr>method_getReadOptions = (\<lambda>this node opt_options. ()),
      method_readDocumentOrFolder =
        (\<lambda>this node objectStack.
           Some (Some [], this\<lparr>kml_sharedStyles := (kml_sharedStyles this)(''#depot'' \<mapsto> Styles [])\<rparr>)),
      method_readPlacemark =
        (\<lambda>this node objectStack.
           map_option (\<lambda>feature. (Some feature, this)) (readPlacemark this (content node)))\<rparr>"

text \<open>The example placemark as the content of a node of a namespace that is
  not in the list, and of a node of a namespace of the list.\<close>

definition foreign_node :: "string \<Rightarrow> (number placemark) node" where
  "foreign_node name = Node (Some ''http://www.w3.org/2005/Atom'') name example_placemark []"

definition kml_node :: "string \<Rightarrow> (number placemark) node" where
  "kml_node name = Node (Some ''http://www.opengis.net/kml/2.2'') name example_placemark []"

text \<open>
  Claim C10. For a node whose namespace is not in \<open>NAMESPACE_URIS\<close>,
  \<open>readFeaturesFromNode\<close> returns the empty array and \<open>readFeatureFromNode\<close>
  returns \<open>null\<close>; neither throws, and both leave the state of the format, with
  its registry of shared styles, as it was, whatever the private readers do.
\<close>

theorem readFeaturesFromNode_unrecognized_namespace:
  assumes "\<not> includes_arr NAMESPACE_URIS (namespaceURI node)"
  shows "readFeaturesFromNode methods this node opt_options = Some ([], this) \<and>
         readFeatureFromNode methods this node opt_options = Some (None, this)"
  using assms by (cases node) (simp add: readFeatureFromNode_def)

text \<open>A \<^verbatim>\<open>Document\<close> of another namespace: no feature, and no style is
  registered.\<close>

theorem readFeaturesFromNode_unrecognized_namespace_witness:
  "\<not> includes_arr NAMESPACE_URIS (namespaceURI (foreign_node ''Document'')) \<and>
   readFeaturesFromNode example_methods example_kml (foreign_node ''Document'') ()
     = Some ([], example_kml) \<and>
   readFeatureFromNode example_methods example_kml (foreign_node ''Document'') ()
     = Some (None, example_kml)"
  using readFeaturesFromNode_unrecognized_namespace
    [of "foreign_node ''Document''" example_methods example_kml "()"]
  by (simp add: foreign_node_def includes_arr_def NAMESPACE_URIS_def)

text \<open>The same content in a namespace of the list is read: a \<^verbatim>\<open>Placemark\<close> gives
  its feature, a \<^verbatim>\<open>Document\<close> registers the style, and \<open>readFeatureFromNode\<close>
  reads the node as a placemark whatever its local name is.\<close>

lemma readFeaturesFromNode_kml_placemark:
  "\<exists>feature. readFeaturesFromNode example_methods example_kml (kml_node ''Placemark'') ()
     = Some ([feature], example_kml) \<and>
     feature_properties feature ''description'' = Some (VString ''from the extended data'')"
  by (simp add: kml_node_def includes_arr_def NAMESPACE_URIS_def example_methods_def
      readPlacemark_example)

lemma readFeaturesFromNode_kml_document:
  "readFeaturesFromNode example_methods example_kml (kml_node ''Document'') ()
     = Some ([], example_kml\<lparr>kml_sharedStyles := [''#depot'' \<mapsto> Styles []]\<rparr>)"
  by (simp add: kml_node_def includes_arr_def NAMESPACE_URIS_def example_methods_def
      example_kml_def)

lemma readFeatureFromNode_kml_namespace:
  "\<exists>feature. readFeatureFromNode example_methods example_kml (kml_node ''Document'') ()
     = Some (Some feature, example_kml)"
  by (simp add: kml_node_def includes_arr_def NAMESPACE_URIS_def example_methods_def
      readPlacemark_example readFeatureFromNode_def)

text \<open>Under a \<^verbatim>\<open>kml\<close> element, a child of a namespace that is not in the list
  adds nothing.\<close>

lemma readFeaturesFromNode_loop_skips:
  assumes "\<not> includes_arr NAMESPACE_URIS (namespaceURI n)"
  shows "readFeaturesFromNode_loop methods this (n # siblings) opt_options features
           = readFeaturesFromNode_loop methods this siblings opt_options features"
  using assms by (cases n) simp


end

